theory Spec2Isabelle
  imports Main "HOL-Library.Word"
begin

section \<open>Provider adapter: sentinel errors and their classification\<close>

text \<open>
  The provider package declares five sentinel errors. The GitLab client's
  \<open>checkStatus\<close> maps HTTP statuses onto them; any other status and every transport
  failure is an error that matches none of the sentinels (\<open>ErrOther\<close> here).
\<close>

datatype provider_error =
    ErrNotFound
  | ErrUnauthorized
  | ErrForbidden
  | ErrRateLimited
  | ErrInvalidInput
  | ErrOther

text \<open>
  \<open>checkStatus\<close> of the GitLab client: 200 and 201 are no error.
\<close>

definition checkStatus :: "nat \<Rightarrow> provider_error option" where
  "checkStatus code =
     (if code = 200 \<or> code = 201 then None
      else if code = 401 then Some ErrUnauthorized
      else if code = 403 then Some ErrForbidden
      else if code = 404 then Some ErrNotFound
      else if code = 400 then Some ErrInvalidInput
      else if code = 429 then Some ErrRateLimited
      else Some ErrOther)"

text \<open>
  A handler of the durable runtime returns either a terminal error (built by
  \<open>restate.TerminalError(err, code)\<close>, never retried) or a plain error, which the
  runtime retries.
\<close>

datatype 'e handler_error =
    TerminalError 'e nat
  | PlainError 'e

definition is_terminal :: "'e handler_error \<Rightarrow> bool" where
  "is_terminal e = (case e of TerminalError _ _ \<Rightarrow> True | PlainError _ \<Rightarrow> False)"

text \<open>
  What a handler of the worker can fail with. Wrapping with \<open>fmt.Errorf("...: %w", err)\<close>
  keeps the wrapped error (and its terminal marker), so the messages are left out.
\<close>

datatype crypto_error =
    CreatingCipher
  | GeneratingNonce
  | CiphertextTooShort
  | Decrypting

text \<open>
  The closed enumeration \<open>review_status\<close> of the schema. The handlers only ever write
  these literals.
\<close>

datatype review_status =
    StatusDraft
  | StatusPending
  | StatusRunning
  | StatusCompleted
  | StatusFailed
  | StatusSkipped

text \<open>
  The database statements of the two services. Each can fail at the driver; which ones do
  is an input (the \<open>db_fails\<close> oracles below), told apart by statement and, where one
  handler issues the same statement several times, by the status written or the comment
  row updated.
\<close>

datatype db_op =
    OpGetRepoWithProvider
  | OpGetLatestReviewDiffHash
  | OpCreateReviewRun
  | OpUpdateReviewRunStatus review_status
  | OpUpdateReviewRunSummary
  | OpUpdateReviewRunDiffHash
  | OpInsertReviewComments
  | OpGetUnpostedComments
  | OpMarkCommentPosted string
  | OpGetProvider
  | OpGetRepoByRemoteID
  | OpGetActiveInvocationID
  | OpCreateReviewRunWithInvocation
  | OpCreateDraftReviewRun
  | OpTransitionDraftToReview
  | OpGetRepo
  | OpUpdateReviewRunInvocationID
  | OpGetReviewRun

datatype service_error =
    RepoNotFound
  | DecryptingToken crypto_error
  | UnsupportedProviderType string
  | ProviderError provider_error
  | DatabaseError db_op
  | ReviewerError
  | SleepCancelled

text \<open>\<open>classifyProviderError\<close> of package difffetcher.\<close>

definition difffetcher_classifyProviderError :: "provider_error \<Rightarrow> service_error handler_error" where
  "difffetcher_classifyProviderError err =
     (if err = ErrNotFound then TerminalError (ProviderError err) 404
      else if err = ErrUnauthorized then TerminalError (ProviderError err) 401
      else if err = ErrForbidden then TerminalError (ProviderError err) 403
      else PlainError (ProviderError err))"

text \<open>\<open>classifyProviderError\<close> of package postreview.\<close>

definition postreview_classifyProviderError :: "provider_error \<Rightarrow> service_error handler_error" where
  "postreview_classifyProviderError err =
     (if err = ErrNotFound then TerminalError (ProviderError err) 404
      else if err = ErrUnauthorized then TerminalError (ProviderError err) 401
      else if err = ErrForbidden then TerminalError (ProviderError err) 403
      else PlainError (ProviderError err))"

section \<open>Webhook payload\<close>

text \<open>
  A JSON value decoded into a Go \<open>any\<close>: \<open>null\<close> is \<open>nil\<close>, a JSON boolean is a
  \<open>bool\<close>, a number a \<open>float64\<close> (kept as its literal), and so on.
\<close>

datatype json_any =
    JNil
  | JBool bool
  | JNumber string
  | JString string
  | JArray "json_any list"
  | JObject "(string \<times> json_any) list"

text \<open>The type assertion \<open>v.(bool)\<close> in its two-result form: value and ok.\<close>

fun assert_bool :: "json_any \<Rightarrow> bool \<times> bool" where
  "assert_bool (JBool b) = (b, True)"
| "assert_bool _ = (False, False)"

record GitLabFieldChange =
  Previous :: json_any
  Current :: json_any

record GitLabWebhookChanges =
  ChangesDraft :: "GitLabFieldChange option"

record GitLabWebhookProject =
  ProjectID :: int

record GitLabMRAttributes =
  IID :: int
  Action :: string
  AttrDraft :: bool
  WorkInProgress :: bool

record GitLabWebhookPayload =
  ObjectKind :: string
  Project :: GitLabWebhookProject
  ObjectAttributes :: GitLabMRAttributes
  Changes :: "GitLabWebhookChanges option"

definition isDraftToReadyTransition :: "GitLabWebhookChanges option \<Rightarrow> bool" where
  "isDraftToReadyTransition changes =
     (case changes of
        None \<Rightarrow> False
      | Some c \<Rightarrow>
          (case ChangesDraft c of
             None \<Rightarrow> False
           | Some d \<Rightarrow>
               (let (prev, prevOk) = assert_bool (Previous d);
                    (curr, currOk) = assert_bool (Current d)
                in prevOk \<and> currOk \<and> prev \<and> \<not> curr)))"

text \<open>
  The two local flags of \<open>WebhookHandler.ServeHTTP\<close> computed after the repository
  lookup.
\<close>

definition webhook_isDraft :: "GitLabWebhookPayload \<Rightarrow> bool" where
  "webhook_isDraft payload =
     (AttrDraft (ObjectAttributes payload) \<or> WorkInProgress (ObjectAttributes payload))"

definition webhook_isDraftToReady :: "GitLabWebhookPayload \<Rightarrow> bool" where
  "webhook_isDraftToReady payload =
     (Action (ObjectAttributes payload) = ''update'' \<and> isDraftToReadyTransition (Changes payload))"

section \<open>Token encryption (package crypto)\<close>

type_synonym bytes = "8 word list"

text \<open>
  AES-256-GCM itself is Go's standard library, not code of this repository: it is a
  parameter. \<open>aead_seal key nonce plaintext\<close> is \<open>gcm.Seal(nil, nonce, plaintext, nil)\<close>,
  \<open>aead_open key nonce ct\<close> is \<open>gcm.Open(nil, nonce, ct, nil)\<close> (\<open>None\<close> when
  authentication fails).
\<close>

record aead =
  aead_seal :: "bytes \<Rightarrow> bytes \<Rightarrow> bytes \<Rightarrow> bytes"
  aead_open :: "bytes \<Rightarrow> bytes \<Rightarrow> bytes \<Rightarrow> bytes option"

text \<open>\<open>aes.NewCipher\<close> accepts keys of 16, 24 or 32 bytes only.\<close>

definition aes_NewCipher_ok :: "bytes \<Rightarrow> bool" where
  "aes_NewCipher_ok key = (length key = 16 \<or> length key = 24 \<or> length key = 32)"

definition NonceSize :: nat where
  "NonceSize = 12"

text \<open>
  \<open>io.ReadFull(rand.Reader, nonce)\<close> either fails or fills the whole buffer: the random
  source is \<open>None\<close> (failure) or a stream of bytes of which the first \<open>NonceSize\<close> are
  taken.
\<close>

definition read_nonce :: "(nat \<Rightarrow> 8 word) \<Rightarrow> bytes" where
  "read_nonce src = map src [0..<NonceSize]"

definition Encrypt :: "aead \<Rightarrow> (nat \<Rightarrow> 8 word) option \<Rightarrow> bytes \<Rightarrow> bytes \<Rightarrow> crypto_error + bytes" where
  "Encrypt gcm rnd plaintext key =
     (if \<not> aes_NewCipher_ok key then Inl CreatingCipher
      else case rnd of
             None \<Rightarrow> Inl GeneratingNonce
           | Some src \<Rightarrow>
               (let nonce = read_nonce src
                in Inr (nonce @ aead_seal gcm key nonce plaintext)))"

definition Decrypt :: "aead \<Rightarrow> bytes \<Rightarrow> bytes \<Rightarrow> crypto_error + bytes" where
  "Decrypt gcm ciphertext key =
     (if \<not> aes_NewCipher_ok key then Inl CreatingCipher
      else if length ciphertext < NonceSize then Inl CiphertextTooShort
      else (let nonce = take NonceSize ciphertext;
                ct = drop NonceSize ciphertext
            in case aead_open gcm key nonce ct of
                 None \<Rightarrow> Inl Decrypting
               | Some plaintext \<Rightarrow> Inr plaintext))"

section \<open>Database\<close>

record provider_row =
  provider_id :: string
  provider_type :: string
  provider_base_url :: string
  provider_token_encrypted :: bytes
  provider_webhook_secret :: "string option"
  provider_deleted :: bool

record repo_row =
  repo_id :: string
  repo_provider_id :: string
  repo_remote_id :: string
  repo_name :: string
  repo_full_path :: string
  repo_review_enabled :: bool

record review_run =
  run_id :: string
  run_repo_id :: string
  run_mr_number :: int
  run_status :: review_status
  run_summary :: "string option"
  run_diff_hash :: "string option"
  run_restate_invocation_id :: "string option"

record review_comment =
  comment_id :: string
  comment_review_run_id :: string
  comment_file_path :: string
  comment_line_start :: int
  comment_line_end :: int
  comment_body :: string
  comment_provider_comment_id :: "string option"
  comment_posted :: bool

text \<open>
  Every table is the list of its rows in \<open>created_at\<close> order: an INSERT appends, rows
  are never deleted. \<open>provider_deleted\<close> stands for \<open>deleted_at IS NOT NULL\<close>.
\<close>

record database =
  providers :: "provider_row list"
  repositories :: "repo_row list"
  review_runs :: "review_run list"
  review_comments :: "review_comment list"

text \<open>\<open>ORDER BY created_at DESC LIMIT 1\<close> over the rows that satisfy \<open>P\<close>.\<close>

definition most_recent :: "('a \<Rightarrow> bool) \<Rightarrow> 'a list \<Rightarrow> 'a option" where
  "most_recent P rows = (case filter P (rev rows) of [] \<Rightarrow> None | r # _ \<Rightarrow> Some r)"

text \<open>
  The identifiers the database generates (\<open>gen_random_uuid()\<close>) are inputs of the
  functions that insert.
\<close>

definition new_review_run :: "string \<Rightarrow> string \<Rightarrow> int \<Rightarrow> review_status \<Rightarrow> string option \<Rightarrow> review_run" where
  "new_review_run new_id repoID mrNumber st invocation =
     \<lparr> run_id = new_id, run_repo_id = repoID, run_mr_number = mrNumber, run_status = st,
       run_summary = None, run_diff_hash = None, run_restate_invocation_id = invocation \<rparr>"

definition CreateReviewRun :: "database \<Rightarrow> string \<Rightarrow> string \<Rightarrow> int \<Rightarrow> database" where
  "CreateReviewRun db new_id repoID mrNumber =
     db\<lparr> review_runs := review_runs db @ [new_review_run new_id repoID mrNumber StatusPending None] \<rparr>"

definition CreateReviewRunWithInvocation :: "database \<Rightarrow> string \<Rightarrow> string \<Rightarrow> int \<Rightarrow> string \<Rightarrow> database" where
  "CreateReviewRunWithInvocation db new_id repoID mrNumber invocationID =
     db\<lparr> review_runs := review_runs db @
            [new_review_run new_id repoID mrNumber StatusPending (Some invocationID)] \<rparr>"

definition CreateDraftReviewRun :: "database \<Rightarrow> string \<Rightarrow> string \<Rightarrow> int \<Rightarrow> database" where
  "CreateDraftReviewRun db new_id repoID mrNumber =
     db\<lparr> review_runs := review_runs db @ [new_review_run new_id repoID mrNumber StatusDraft None] \<rparr>"

definition update_runs :: "database \<Rightarrow> string \<Rightarrow> (review_run \<Rightarrow> review_run) \<Rightarrow> database" where
  "update_runs db runID f =
     db\<lparr> review_runs := map (\<lambda>r. if run_id r = runID then f r else r) (review_runs db) \<rparr>"

definition UpdateReviewRunStatus :: "database \<Rightarrow> string \<Rightarrow> review_status \<Rightarrow> database" where
  "UpdateReviewRunStatus db runID st = update_runs db runID (\<lambda>r. r\<lparr> run_status := st \<rparr>)"

definition UpdateReviewRunSummary :: "database \<Rightarrow> string \<Rightarrow> string \<Rightarrow> database" where
  "UpdateReviewRunSummary db runID summary =
     update_runs db runID (\<lambda>r. r\<lparr> run_summary := Some summary \<rparr>)"

definition UpdateReviewRunDiffHash :: "database \<Rightarrow> string \<Rightarrow> string \<Rightarrow> database" where
  "UpdateReviewRunDiffHash db runID diffHash =
     update_runs db runID (\<lambda>r. r\<lparr> run_diff_hash := Some diffHash \<rparr>)"

definition UpdateReviewRunInvocationID :: "database \<Rightarrow> string \<Rightarrow> string \<Rightarrow> database" where
  "UpdateReviewRunInvocationID db runID invocationID =
     update_runs db runID (\<lambda>r. r\<lparr> run_restate_invocation_id := Some invocationID \<rparr>)"

text \<open>
  \<open>TransitionDraftToReview\<close>: the most recent draft row of the pair becomes pending; no
  draft row, no change.
\<close>

definition TransitionDraftToReview :: "database \<Rightarrow> string \<Rightarrow> int \<Rightarrow> database" where
  "TransitionDraftToReview db repoID mrNumber =
     (case most_recent (\<lambda>r. run_repo_id r = repoID \<and> run_mr_number r = mrNumber
                             \<and> run_status r = StatusDraft) (review_runs db) of
        None \<Rightarrow> db
      | Some d \<Rightarrow> update_runs db (run_id d) (\<lambda>r. r\<lparr> run_status := StatusPending \<rparr>))"

text \<open>
  \<open>GetActiveInvocationID\<close>: the (nullable) invocation id of the most recent pending or
  running row; \<open>nil\<close> when there is no such row.
\<close>

definition GetActiveInvocationID :: "database \<Rightarrow> string \<Rightarrow> int \<Rightarrow> string option" where
  "GetActiveInvocationID db repoID mrNumber =
     (case most_recent (\<lambda>r. run_repo_id r = repoID \<and> run_mr_number r = mrNumber
                             \<and> (run_status r = StatusPending \<or> run_status r = StatusRunning))
             (review_runs db) of
        None \<Rightarrow> None
      | Some r \<Rightarrow> run_restate_invocation_id r)"

text \<open>
  \<open>GetLatestReviewDiffHash\<close>: the hash of the most recent completed row of the pair that
  has one; \<open>None\<close> is the result \<open>("", false, nil)\<close>.
\<close>

definition GetLatestReviewDiffHash :: "database \<Rightarrow> string \<Rightarrow> int \<Rightarrow> string option" where
  "GetLatestReviewDiffHash db repoID mrNumber =
     (case most_recent (\<lambda>r. run_repo_id r = repoID \<and> run_mr_number r = mrNumber
                             \<and> run_status r = StatusCompleted \<and> run_diff_hash r \<noteq> None)
             (review_runs db) of
        None \<Rightarrow> None
      | Some r \<Rightarrow> run_diff_hash r)"

definition GetProvider :: "database \<Rightarrow> string \<Rightarrow> provider_row option" where
  "GetProvider db pid = find (\<lambda>p. provider_id p = pid \<and> \<not> provider_deleted p) (providers db)"

definition GetRepo :: "database \<Rightarrow> string \<Rightarrow> repo_row option" where
  "GetRepo db rid = find (\<lambda>r. repo_id r = rid) (repositories db)"

definition GetReviewRun :: "database \<Rightarrow> string \<Rightarrow> review_run option" where
  "GetReviewRun db runID = find (\<lambda>r. run_id r = runID) (review_runs db)"

definition GetRepoByRemoteID :: "database \<Rightarrow> string \<Rightarrow> string \<Rightarrow> repo_row option" where
  "GetRepoByRemoteID db providerID remoteID =
     find (\<lambda>r. repo_provider_id r = providerID \<and> repo_remote_id r = remoteID) (repositories db)"

text \<open>
  \<open>GetRepoWithProvider\<close> of the worker: the join of a repository with its provider
  (which does not look at \<open>deleted_at\<close>).
\<close>

definition GetRepoWithProvider :: "database \<Rightarrow> string \<Rightarrow> (repo_row \<times> provider_row) option" where
  "GetRepoWithProvider db repoID =
     (case find (\<lambda>r. repo_id r = repoID) (repositories db) of
        None \<Rightarrow> None
      | Some r \<Rightarrow>
          (case find (\<lambda>p. provider_id p = repo_provider_id r) (providers db) of
             None \<Rightarrow> None
           | Some p \<Rightarrow> Some (r, p)))"

subsection \<open>Review comments\<close>

record ReviewCommentInput =
  in_FilePath :: string
  in_LineStart :: int
  in_LineEnd :: int
  in_Body :: string

record ReviewCommentRow =
  row_ID :: string
  row_ReviewRunID :: string
  row_FilePath :: string
  row_LineStart :: int
  row_LineEnd :: int
  row_Body :: string

text \<open>
  \<open>InsertReviewComments\<close> inserts one row per input, each with \<open>posted = false\<close> and
  the column \<open>provider_comment_id\<close> left at its default NULL. \<open>gen\<close> gives the
  identifier of the row inserted when the table holds \<open>n\<close> rows.
\<close>

fun InsertReviewComments :: "database \<Rightarrow> (nat \<Rightarrow> string) \<Rightarrow> string \<Rightarrow> ReviewCommentInput list \<Rightarrow> database" where
  "InsertReviewComments db gen runID [] = db"
| "InsertReviewComments db gen runID (c # cs) =
     InsertReviewComments
       (db\<lparr> review_comments := review_comments db @
              [\<lparr> comment_id = gen (length (review_comments db)),
                 comment_review_run_id = runID,
                 comment_file_path = in_FilePath c,
                 comment_line_start = in_LineStart c,
                 comment_line_end = in_LineEnd c,
                 comment_body = in_Body c,
                 comment_provider_comment_id = None,
                 comment_posted = False \<rparr>] \<rparr>)
       gen runID cs"

definition to_row :: "review_comment \<Rightarrow> ReviewCommentRow" where
  "to_row c =
     \<lparr> row_ID = comment_id c, row_ReviewRunID = comment_review_run_id c,
       row_FilePath = comment_file_path c, row_LineStart = comment_line_start c,
       row_LineEnd = comment_line_end c, row_Body = comment_body c \<rparr>"

definition GetUnpostedComments :: "database \<Rightarrow> string \<Rightarrow> ReviewCommentRow list" where
  "GetUnpostedComments db runID =
     map to_row (filter (\<lambda>c. comment_review_run_id c = runID \<and> comment_posted c = False)
                        (review_comments db))"

definition MarkCommentPosted :: "database \<Rightarrow> string \<Rightarrow> string \<Rightarrow> database" where
  "MarkCommentPosted db commentID providerCommentID =
     db\<lparr> review_comments :=
           map (\<lambda>c. if comment_id c = commentID
                    then c\<lparr> comment_posted := True,
                            comment_provider_comment_id := Some providerCommentID \<rparr>
                    else c)
               (review_comments db) \<rparr>"

section \<open>Provider interface\<close>

record MRDetails =
  Title :: string
  Description :: string
  Author :: string
  SourceBranch :: string
  TargetBranch :: string
  HeadSHA :: string
  Draft :: bool

record ChangedFile =
  OldPath :: string
  NewPath :: string
  FileDiff :: string
  NewFile :: bool
  Deleted :: bool
  Renamed :: bool

record MRDiff =
  UnifiedDiff :: string
  ChangedFiles :: "ChangedFile list"
  ChangedLines :: int

record InlineComment =
  ic_FilePath :: string
  ic_Line :: int
  ic_Body :: string
  ic_NewLine :: bool

text \<open>
  The interface \<open>GitProvider\<close>, as far as the review pipeline calls it. The remote side
  is an input: each method is a function from its arguments to an error or a result
  (\<open>CommentResult.ID\<close> for the two posting methods).
\<close>

record GitProvider =
  GetMRDiff :: "string \<Rightarrow> int \<Rightarrow> provider_error + MRDiff"
  GetMRDetails :: "string \<Rightarrow> int \<Rightarrow> provider_error + MRDetails"
  PostComment :: "string \<Rightarrow> int \<Rightarrow> string \<Rightarrow> provider_error + string"
  PostInlineComment :: "string \<Rightarrow> int \<Rightarrow> InlineComment \<Rightarrow> provider_error + string"

text \<open>The provider calls a handler made, in order.\<close>

datatype provider_call =
    CallGetMRDetails string int
  | CallGetMRDiff string int
  | CallPostComment string int string
  | CallPostInlineComment string int InlineComment

section \<open>Worker services\<close>

record reviewerInput =
  rin_Diff :: string
  rin_MRTitle :: string
  rin_MRDescription :: string
  rin_MRAuthor :: string
  rin_SourceBranch :: string
  rin_TargetBranch :: string
  rin_ChangedFiles :: "string list"

record reviewComment =
  rc_FilePath :: string
  rc_LineStart :: int
  rc_LineEnd :: int
  rc_Body :: string

record reviewerOutput =
  rout_Summary :: string
  rout_Comments :: "reviewComment list"

text \<open>
  Everything outside the worker's code that its handlers depend on: which database
  statements fail, the AEAD primitive and the key, the remote provider reached through
  \<open>gitlab.New(baseURL, token)\<close>, the identifiers the database generates, the clock, whether
  the durable sleep is cancelled, and the answer of the Reviewer service (\<open>Inl\<close>: the call
  returned an error to the orchestrator).
\<close>

record worker_env =
  db_fails :: "db_op \<Rightarrow> bool"
  gcm :: aead
  encKey :: bytes
  gitlab_New :: "string \<Rightarrow> bytes \<Rightarrow> GitProvider"
  new_run_id :: string
  new_comment_id :: "nat \<Rightarrow> string"
  now_UnixMilli :: "64 word"
  sleep_cancelled :: bool
  reviewer_RunReview :: "reviewerInput \<Rightarrow> service_error handler_error + reviewerOutput"

text \<open>\<open>newProvider\<close> (the same function in difffetcher and postreview).\<close>

definition newProvider :: "worker_env \<Rightarrow> string \<Rightarrow> string \<Rightarrow> bytes \<Rightarrow> service_error + GitProvider" where
  "newProvider env provType baseURL token =
     (if provType = ''gitlab_self_hosted'' \<or> provType = ''gitlab_cloud''
      then Inr (gitlab_New env (if baseURL = [] then ''https://gitlab.com'' else baseURL) token)
      else Inl (UnsupportedProviderType provType))"

subsection \<open>DiffFetcher\<close>

definition maxChangedLines :: int where
  "maxChangedLines = 5000"

record FetchRequest =
  freq_RepoID :: string
  freq_MRNumber :: int
  freq_Force :: bool

record FetchResponse =
  fr_Diff :: string
  fr_MRTitle :: string
  fr_MRDescription :: string
  fr_MRAuthor :: string
  fr_SourceBranch :: string
  fr_TargetBranch :: string
  fr_ChangedFiles :: "string list"
  fr_ChangedLines :: int
  fr_DiffTooLarge :: bool
  fr_RepoRemoteID :: string
  fr_DiffHash :: string
  fr_Skip :: bool
  fr_Draft :: bool

text \<open>\<open>FetchResponse{}\<close>: every field at its zero value.\<close>

definition FetchResponse_zero :: FetchResponse where
  "FetchResponse_zero =
     \<lparr> fr_Diff = [], fr_MRTitle = [], fr_MRDescription = [], fr_MRAuthor = [],
       fr_SourceBranch = [], fr_TargetBranch = [], fr_ChangedFiles = [], fr_ChangedLines = 0,
       fr_DiffTooLarge = False, fr_RepoRemoteID = [], fr_DiffHash = [], fr_Skip = False,
       fr_Draft = False \<rparr>"

type_synonym fetch_result = "(service_error handler_error + FetchResponse) \<times> provider_call list"

text \<open>
  \<open>FetchPRDetails\<close> in three parts, split where the source has fetched the details and
  where it has passed the dedup check.
\<close>

definition fetch_diff :: "GitProvider \<Rightarrow> repo_row \<Rightarrow> FetchRequest \<Rightarrow> MRDetails \<Rightarrow> fetch_result" where
  "fetch_diff client repo req details =
     (let calls = [CallGetMRDetails (repo_remote_id repo) (freq_MRNumber req),
                   CallGetMRDiff (repo_remote_id repo) (freq_MRNumber req)]
      in case GetMRDiff client (repo_remote_id repo) (freq_MRNumber req) of
           Inl err \<Rightarrow> (Inl (difffetcher_classifyProviderError err), calls)
         | Inr diff \<Rightarrow>
             (Inr \<lparr> fr_Diff = UnifiedDiff diff,
                    fr_MRTitle = Title details,
                    fr_MRDescription = Description details,
                    fr_MRAuthor = Author details,
                    fr_SourceBranch = SourceBranch details,
                    fr_TargetBranch = TargetBranch details,
                    fr_ChangedFiles = map NewPath (ChangedFiles diff),
                    fr_ChangedLines = ChangedLines diff,
                    fr_DiffTooLarge = (ChangedLines diff > maxChangedLines),
                    fr_RepoRemoteID = repo_remote_id repo,
                    fr_DiffHash = HeadSHA details,
                    fr_Skip = False,
                    fr_Draft = Draft details \<rparr>, calls))"

definition fetch_dedup :: "worker_env \<Rightarrow> database \<Rightarrow> GitProvider \<Rightarrow> repo_row \<Rightarrow> FetchRequest \<Rightarrow> MRDetails \<Rightarrow> fetch_result" where
  "fetch_dedup env db client repo req details =
     (let diffHash = HeadSHA details;
          calls = [CallGetMRDetails (repo_remote_id repo) (freq_MRNumber req)]
      in if \<not> freq_Force req then
           (if db_fails env OpGetLatestReviewDiffHash
            then (Inl (PlainError (DatabaseError OpGetLatestReviewDiffHash)), calls)
            else case GetLatestReviewDiffHash db (freq_RepoID req) (freq_MRNumber req) of
                   Some prevHash \<Rightarrow>
                     if prevHash = diffHash
                     then (Inr (FetchResponse_zero\<lparr> fr_Skip := True, fr_DiffHash := diffHash \<rparr>), calls)
                     else fetch_diff client repo req details
                 | None \<Rightarrow> fetch_diff client repo req details)
         else fetch_diff client repo req details)"

definition FetchPRDetails :: "worker_env \<Rightarrow> database \<Rightarrow> FetchRequest \<Rightarrow> fetch_result" where
  "FetchPRDetails env db req =
     (if db_fails env OpGetRepoWithProvider then (Inl (TerminalError RepoNotFound 404), [])
      else case GetRepoWithProvider db (freq_RepoID req) of
        None \<Rightarrow> (Inl (TerminalError RepoNotFound 404), [])
      | Some (repo, prov) \<Rightarrow>
          (case Decrypt (gcm env) (provider_token_encrypted prov) (encKey env) of
             Inl e \<Rightarrow> (Inl (TerminalError (DecryptingToken e) 500), [])
           | Inr token \<Rightarrow>
               (case newProvider env (provider_type prov) (provider_base_url prov) token of
                  Inl e \<Rightarrow> (Inl (TerminalError e 400), [])
                | Inr client \<Rightarrow>
                    (case GetMRDetails client (repo_remote_id repo) (freq_MRNumber req) of
                       Inl err \<Rightarrow>
                         (Inl (difffetcher_classifyProviderError err),
                          [CallGetMRDetails (repo_remote_id repo) (freq_MRNumber req)])
                     | Inr details \<Rightarrow> fetch_dedup env db client repo req details))))"

subsection \<open>PostReview\<close>

record PostRequest =
  preq_ReviewRunID :: string
  preq_RepoID :: string
  preq_MRNumber :: int
  preq_RepoRemoteID :: string
  preq_Summary :: string
  preq_DryRun :: bool

record PostResponse =
  CommentsPosted :: int
  SummaryPosted :: bool

text \<open>
  \<open>Post\<close> returns a response together with an error (partial progress): the result is the
  response, the error if any, the database afterwards and the provider calls made.
\<close>

type_synonym post_result =
  "PostResponse \<times> service_error handler_error option \<times> database \<times> provider_call list"

text \<open>
  The loop over the unposted comments. The rows are the ones loaded before the loop;
  \<open>posted\<close> is the local counter.
\<close>

fun post_comments :: "worker_env \<Rightarrow> GitProvider \<Rightarrow> PostRequest \<Rightarrow> ReviewCommentRow list
    \<Rightarrow> database \<Rightarrow> int \<Rightarrow> provider_call list \<Rightarrow> post_result" where
  "post_comments env client req [] db posted calls =
     (\<lparr> CommentsPosted = posted, SummaryPosted = True \<rparr>, None, db, calls)"
| "post_comments env client req (c # cs) db posted calls =
     (let ic = \<lparr> ic_FilePath = row_FilePath c, ic_Line = row_LineStart c,
                 ic_Body = row_Body c, ic_NewLine = True \<rparr>;
          calls' = calls @ [CallPostInlineComment (preq_RepoRemoteID req) (preq_MRNumber req) ic]
      in case PostInlineComment client (preq_RepoRemoteID req) (preq_MRNumber req) ic of
           Inl err \<Rightarrow>
             if err = ErrInvalidInput then
               (if db_fails env (OpMarkCommentPosted (row_ID c))
                then (\<lparr> CommentsPosted = posted, SummaryPosted = True \<rparr>,
                      Some (PlainError (DatabaseError (OpMarkCommentPosted (row_ID c)))), db, calls')
                else post_comments env client req cs
                       (MarkCommentPosted db (row_ID c) ''skipped'') posted calls')
             else (\<lparr> CommentsPosted = posted, SummaryPosted = True \<rparr>,
                   Some (postreview_classifyProviderError err), db, calls')
         | Inr result_ID \<Rightarrow>
             if db_fails env (OpMarkCommentPosted (row_ID c))
             then (\<lparr> CommentsPosted = posted, SummaryPosted = True \<rparr>,
                   Some (PlainError (DatabaseError (OpMarkCommentPosted (row_ID c)))), db, calls')
             else post_comments env client req cs
                    (MarkCommentPosted db (row_ID c) result_ID) (posted + 1) calls')"

definition PostResponse_zero :: PostResponse where
  "PostResponse_zero = \<lparr> CommentsPosted = 0, SummaryPosted = False \<rparr>"

definition post_to_provider :: "worker_env \<Rightarrow> database \<Rightarrow> PostRequest \<Rightarrow> GitProvider \<Rightarrow> post_result" where
  "post_to_provider env db req client =
     (let calls = [CallPostComment (preq_RepoRemoteID req) (preq_MRNumber req) (preq_Summary req)]
      in case PostComment client (preq_RepoRemoteID req) (preq_MRNumber req) (preq_Summary req) of
           Inl err \<Rightarrow> (PostResponse_zero, Some (postreview_classifyProviderError err), db, calls)
         | Inr _ \<Rightarrow>
             if db_fails env OpGetUnpostedComments
             then (PostResponse_zero, Some (PlainError (DatabaseError OpGetUnpostedComments)), db, calls)
             else post_comments env client req
                    (GetUnpostedComments db (preq_ReviewRunID req)) db 0 calls)"

definition Post :: "worker_env \<Rightarrow> database \<Rightarrow> PostRequest \<Rightarrow> post_result" where
  "Post env db0 req =
     (if db_fails env OpUpdateReviewRunSummary
      then (PostResponse_zero, Some (PlainError (DatabaseError OpUpdateReviewRunSummary)), db0, [])
      else
        let db = UpdateReviewRunSummary db0 (preq_ReviewRunID req) (preq_Summary req)
        in if preq_DryRun req then (PostResponse_zero, None, db, [])
           else if db_fails env OpGetRepoWithProvider
           then (PostResponse_zero, Some (TerminalError RepoNotFound 404), db, [])
           else case GetRepoWithProvider db (preq_RepoID req) of
             None \<Rightarrow> (PostResponse_zero, Some (TerminalError RepoNotFound 404), db, [])
           | Some (repo, prov) \<Rightarrow>
               (case Decrypt (gcm env) (provider_token_encrypted prov) (encKey env) of
                  Inl e \<Rightarrow> (PostResponse_zero, Some (TerminalError (DecryptingToken e) 500), db, [])
                | Inr token \<Rightarrow>
                    (case newProvider env (provider_type prov) (provider_base_url prov) token of
                       Inl e \<Rightarrow> (PostResponse_zero, Some (TerminalError e 400), db, [])
                     | Inr client \<Rightarrow> post_to_provider env db req client)))"

subsection \<open>PRReview (the orchestrator)\<close>

record RunRequest =
  rr_RunID :: string
  rr_RepoID :: string
  rr_MRNumber :: int
  rr_DryRun :: bool
  rr_Force :: bool

text \<open>
  How one execution of \<open>Run\<close> ends: it returns the run id, it returns an error, or it is
  still waiting for a service it called, because that service failed with a plain
  (retryable) error and the runtime retries the callee instead of handing the error to
  the caller.
\<close>

datatype run_result =
    RunReturned string
  | RunError "service_error handler_error"
  | RunAwaitingRetry "service_error handler_error"

type_synonym run_step = "run_result \<times> database \<times> provider_call list"

text \<open>
  The closure \<open>fail\<close>: the status update's own error is discarded (\<open>_ =\<close>), the given
  error is returned.
\<close>

definition run_fail :: "worker_env \<Rightarrow> database \<Rightarrow> string \<Rightarrow> service_error handler_error
    \<Rightarrow> provider_call list \<Rightarrow> run_step" where
  "run_fail env db runID err calls =
     (RunError err,
      if db_fails env (OpUpdateReviewRunStatus StatusFailed) then db
      else UpdateReviewRunStatus db runID StatusFailed,
      calls)"

definition tooLargeSummary :: string where
  "tooLargeSummary = ''This PR is too large to review automatically (> 5000 changed lines).''"

text \<open>
  Calling \<open>PostReview.Post\<close> and then marking the run completed. The source has this
  sequence twice with the same shape: in step 5 (too large, canned summary) and in steps
  8 and 9 (the reviewer's summary).
\<close>

definition run_post_and_complete :: "worker_env \<Rightarrow> database \<Rightarrow> RunRequest \<Rightarrow> string \<Rightarrow> string
    \<Rightarrow> string \<Rightarrow> run_step" where
  "run_post_and_complete env db req runID repoRemoteID summary =
     (case Post env db \<lparr> preq_ReviewRunID = runID, preq_RepoID = rr_RepoID req,
                          preq_MRNumber = rr_MRNumber req, preq_RepoRemoteID = repoRemoteID,
                          preq_Summary = summary, preq_DryRun = rr_DryRun req \<rparr> of
        (resp, Some (TerminalError e code), db1, calls) \<Rightarrow>
          run_fail env db1 runID (TerminalError e code) calls
      | (resp, Some (PlainError e), db1, calls) \<Rightarrow> (RunAwaitingRetry (PlainError e), db1, calls)
      | (resp, None, db1, calls) \<Rightarrow>
          if db_fails env (OpUpdateReviewRunStatus StatusCompleted)
          then run_fail env db1 runID
                 (PlainError (DatabaseError (OpUpdateReviewRunStatus StatusCompleted))) calls
          else (RunReturned runID, UpdateReviewRunStatus db1 runID StatusCompleted, calls))"

text \<open>
  Steps 6 to 9. \<open>InsertReviewComments\<close> issues one statement per comment, so it cannot
  fail on an empty list; a failure is taken to hit the first statement.
\<close>

definition run_review :: "worker_env \<Rightarrow> database \<Rightarrow> RunRequest \<Rightarrow> string \<Rightarrow> FetchResponse \<Rightarrow> run_step" where
  "run_review env db req runID fetchResp =
     (case reviewer_RunReview env
             \<lparr> rin_Diff = fr_Diff fetchResp, rin_MRTitle = fr_MRTitle fetchResp,
               rin_MRDescription = fr_MRDescription fetchResp, rin_MRAuthor = fr_MRAuthor fetchResp,
               rin_SourceBranch = fr_SourceBranch fetchResp,
               rin_TargetBranch = fr_TargetBranch fetchResp,
               rin_ChangedFiles = fr_ChangedFiles fetchResp \<rparr> of
        Inl (TerminalError e code) \<Rightarrow> run_fail env db runID (TerminalError e code) []
      | Inl (PlainError e) \<Rightarrow> (RunAwaitingRetry (PlainError e), db, [])
      | Inr reviewer \<Rightarrow>
          (let commentInputs =
                 map (\<lambda>c. \<lparr> in_FilePath = rc_FilePath c, in_LineStart = rc_LineStart c,
                             in_LineEnd = rc_LineEnd c, in_Body = rc_Body c \<rparr>)
                     (rout_Comments reviewer)
           in if commentInputs \<noteq> [] \<and> db_fails env OpInsertReviewComments
              then run_fail env db runID (PlainError (DatabaseError OpInsertReviewComments)) []
              else run_post_and_complete env
                     (InsertReviewComments db (new_comment_id env) runID commentInputs)
                     req runID (fr_RepoRemoteID fetchResp) (rout_Summary reviewer)))"

text \<open>Steps 2 to 5, after a successful fetch.\<close>

definition run_after_fetch :: "worker_env \<Rightarrow> database \<Rightarrow> RunRequest \<Rightarrow> string \<Rightarrow> FetchResponse \<Rightarrow> run_step" where
  "run_after_fetch env db req runID fetchResp =
     (if fr_Draft fetchResp then
        (RunReturned runID,
         if db_fails env (OpUpdateReviewRunStatus StatusDraft) then db
         else UpdateReviewRunStatus db runID StatusDraft, [])
      else if fr_Skip fetchResp then
        (if db_fails env (OpUpdateReviewRunStatus StatusSkipped)
         then (RunError (PlainError (DatabaseError (OpUpdateReviewRunStatus StatusSkipped))), db, [])
         else (RunReturned runID, UpdateReviewRunStatus db runID StatusSkipped, []))
      else if fr_DiffHash fetchResp \<noteq> [] \<and> db_fails env OpUpdateReviewRunDiffHash then
        run_fail env db runID (PlainError (DatabaseError OpUpdateReviewRunDiffHash)) []
      else
        (let db1 = (if fr_DiffHash fetchResp \<noteq> []
                    then UpdateReviewRunDiffHash db runID (fr_DiffHash fetchResp) else db)
         in if db_fails env (OpUpdateReviewRunStatus StatusRunning)
            then run_fail env db1 runID
                   (PlainError (DatabaseError (OpUpdateReviewRunStatus StatusRunning))) []
            else (let db2 = UpdateReviewRunStatus db1 runID StatusRunning
                  in if fr_DiffTooLarge fetchResp
                     then run_post_and_complete env db2 req runID
                            (fr_RepoRemoteID fetchResp) tooLargeSummary
                     else run_review env db2 req runID fetchResp)))"

text \<open>Step 1 and the rest, once the run row is chosen.\<close>

definition run_pipeline :: "worker_env \<Rightarrow> database \<Rightarrow> RunRequest \<Rightarrow> string \<Rightarrow> run_step" where
  "run_pipeline env db req runID =
     (case FetchPRDetails env db
             \<lparr> freq_RepoID = rr_RepoID req, freq_MRNumber = rr_MRNumber req,
               freq_Force = rr_Force req \<rparr> of
        (Inl (TerminalError e code), calls) \<Rightarrow> run_fail env db runID (TerminalError e code) calls
      | (Inl (PlainError e), calls) \<Rightarrow> (RunAwaitingRetry (PlainError e), db, calls)
      | (Inr fetchResp, calls) \<Rightarrow>
          (case run_after_fetch env db req runID fetchResp of
             (res, db', calls') \<Rightarrow> (res, db', calls @ calls')))"

text \<open>
  The per-key state of the virtual object holds \<open>last_started_at\<close>;
  \<open>restate.Get[int64]\<close> gives the zero value when the key was never set.
\<close>

definition restate_Get_int64 :: "64 word option \<Rightarrow> 64 word" where
  "restate_Get_int64 v = (case v of None \<Rightarrow> 0 | Some x \<Rightarrow> x)"

text \<open>
  The debounce condition \<open>lastStarted > 0 && (now-lastStarted) < 3*60*1000\<close> on signed
  64-bit integers (the subtraction wraps).
\<close>

definition debounce :: "64 word \<Rightarrow> 64 word \<Rightarrow> bool" where
  "debounce lastStarted now =
     (0 < sint lastStarted \<and> sint (now - lastStarted) < 3 * 60 * 1000)"

record run_outcome =
  out_result :: run_result
  out_db :: database
  out_calls :: "provider_call list"
  out_last_started_at :: "64 word option"
  out_slept :: bool

text \<open>
  Run-row selection: the caller's run id when it gave one, a new pending row otherwise.
\<close>

definition run_select_row :: "worker_env \<Rightarrow> database \<Rightarrow> RunRequest
    \<Rightarrow> service_error handler_error + string \<times> database" where
  "run_select_row env db req =
     (if rr_RunID req \<noteq> [] then Inr (rr_RunID req, db)
      else if db_fails env OpCreateReviewRun
      then Inl (PlainError (DatabaseError OpCreateReviewRun))
      else Inr (new_run_id env,
                CreateReviewRun db (new_run_id env) (rr_RepoID req) (rr_MRNumber req)))"

text \<open>
  \<open>Run\<close>. \<open>out_slept\<close> records that the execution was suspended by
  \<open>restate.Sleep(ctx, 3*time.Minute)\<close>; a cancelled sleep returns its error at once.
\<close>

definition Run :: "worker_env \<Rightarrow> 64 word option \<Rightarrow> database \<Rightarrow> RunRequest \<Rightarrow> run_outcome" where
  "Run env last_started_at db req =
     (let lastStarted = restate_Get_int64 last_started_at;
          now = now_UnixMilli env;
          slept = debounce lastStarted now
      in if slept \<and> sleep_cancelled env then
           \<lparr> out_result = RunError (TerminalError SleepCancelled 409), out_db = db,
             out_calls = [], out_last_started_at = Some now, out_slept = True \<rparr>
         else
           (case run_select_row env db req of
              Inl err \<Rightarrow>
                \<lparr> out_result = RunError err, out_db = db, out_calls = [],
                  out_last_started_at = Some now, out_slept = slept \<rparr>
            | Inr (runID, db1) \<Rightarrow>
                (case run_pipeline env db1 req runID of
                   (res, db', calls) \<Rightarrow>
                     \<lparr> out_result = res, out_db = db', out_calls = calls,
                       out_last_started_at = Some now, out_slept = slept \<rparr>)))"

section \<open>API server\<close>

record PRReviewRequest =
  prr_RunID :: string
  prr_RepoID :: string
  prr_MRNumber :: int
  prr_Force :: bool

text \<open>
  The interface \<open>RestateDispatcher\<close>. \<open>SendPRReview\<close> gives the invocation id or fails
  (\<open>None\<close>); \<open>CancelInvocation\<close> tells whether it returned an error.
\<close>

record RestateDispatcher =
  SendPRReview :: "string \<Rightarrow> PRReviewRequest \<Rightarrow> string option"
  CancelInvocation :: "string \<Rightarrow> bool"

datatype restate_call =
    CallCancelInvocation string
  | CallSendPRReview string PRReviewRequest

record api_env =
  api_db_fails :: "db_op \<Rightarrow> bool"
  api_new_run_id :: string

text \<open>\<open>strings.TrimPrefix\<close>, \<open>strings.TrimSuffix\<close> and \<open>strconv.FormatInt(i, 10)\<close>.\<close>

definition TrimPrefix :: "string \<Rightarrow> string \<Rightarrow> string" where
  "TrimPrefix s p = (if length p \<le> length s \<and> take (length p) s = p then drop (length p) s else s)"

definition TrimSuffix :: "string \<Rightarrow> string \<Rightarrow> string" where
  "TrimSuffix s p =
     (if length p \<le> length s \<and> drop (length s - length p) s = p
      then take (length s - length p) s else s)"

fun format_nat :: "nat \<Rightarrow> string" where
  "format_nat n =
     (if n < 10 then [char_of (48 + n)]
      else format_nat (n div 10) @ [char_of (48 + n mod 10)])"

declare format_nat.simps [simp del]

definition FormatInt :: "int \<Rightarrow> string" where
  "FormatInt i = (if i < 0 then CHR ''-'' # format_nat (nat (- i)) else format_nat (nat i))"

subsection \<open>Webhook ingress\<close>

text \<open>
  \<open>subtle.ConstantTimeCompare\<close>: 1 when the two byte strings are equal, 0 otherwise
  (also when their lengths differ).
\<close>

definition ConstantTimeCompare :: "string \<Rightarrow> string \<Rightarrow> int" where
  "ConstantTimeCompare x y = (if x = y then 1 else 0)"

text \<open>
  The request body, as the one call \<open>json.NewDecoder(r.Body).Decode(&payload)\<close> sees it.
  \<open>Decode\<close> reads the first JSON value of the stream and stops at its end: the bytes
  that follow stay unread, and the handler makes no second call and no check that the
  stream is exhausted. So a body is its first value, as far as the decoder gets with it,
  and the rest: \<open>DecodeSyntaxError\<close> when the body is empty or does not begin with a
  well-formed JSON value, \<open>DecodeTypeError\<close> when the first value is well formed but does
  not fit the payload struct (a string where \<open>iid\<close> wants a number), and \<open>Decoded\<close> with
  the payload otherwise. \<open>Decode\<close> returns an error in the first two cases only.
\<close>

datatype decode_outcome =
    DecodeSyntaxError
  | DecodeTypeError
  | Decoded GitLabWebhookPayload

record request_body =
  body_first :: decode_outcome
  body_rest :: string

definition Decoder_Decode :: "request_body \<Rightarrow> GitLabWebhookPayload option" where
  "Decoder_Decode body =
     (case body_first body of
        DecodeSyntaxError \<Rightarrow> None
      | DecodeTypeError \<Rightarrow> None
      | Decoded payload \<Rightarrow> Some payload)"



text \<open>
  The parts of the request the handler reads: method, URL path, the header
  \<open>X-Gitlab-Token\<close> (empty when absent) and the body.
\<close>

record http_request =
  req_Method :: string
  req_Path :: string
  req_GitlabToken :: string
  req_Body :: request_body

text \<open>The response status, the database afterwards and the calls to the runtime.\<close>

type_synonym webhook_result = "nat \<times> database \<times> restate_call list"

text \<open>
  Cancel, submit, record. A failing lookup of the active invocation and a failing cancel
  are only logged.
\<close>

definition webhook_dispatch :: "api_env \<Rightarrow> RestateDispatcher \<Rightarrow> database \<Rightarrow> repo_row \<Rightarrow> int \<Rightarrow> webhook_result" where
  "webhook_dispatch env d db repo mrIID =
     (let cancels =
            (if api_db_fails env OpGetActiveInvocationID then []
             else case GetActiveInvocationID db (repo_id repo) mrIID of
                    None \<Rightarrow> []
                  | Some activeInvocationID \<Rightarrow> [CallCancelInvocation activeInvocationID]);
          key = repo_id repo @ ''-'' @ FormatInt mrIID;
          preq = \<lparr> prr_RunID = [], prr_RepoID = repo_id repo, prr_MRNumber = mrIID,
                   prr_Force = False \<rparr>;
          calls = cancels @ [CallSendPRReview key preq]
      in case SendPRReview d key preq of
           None \<Rightarrow> (500, db, calls)
         | Some invocationID \<Rightarrow>
             if api_db_fails env OpCreateReviewRunWithInvocation then (500, db, calls)
             else (200,
                   CreateReviewRunWithInvocation db (api_new_run_id env) (repo_id repo) mrIID
                     invocationID,
                   calls))"

text \<open>The handler from the object-kind filter on, for a decoded payload.\<close>

definition webhook_event :: "api_env \<Rightarrow> RestateDispatcher option \<Rightarrow> database \<Rightarrow> string
    \<Rightarrow> GitLabWebhookPayload \<Rightarrow> webhook_result" where
  "webhook_event env dispatcher db providerID payload =
     (if ObjectKind payload \<noteq> ''merge_request'' then (200, db, [])
      else
        let action = Action (ObjectAttributes payload);
            mrIID = IID (ObjectAttributes payload)
        in if \<not> (action = ''open'' \<or> action = ''update'' \<or> action = ''reopen'') then (200, db, [])
           else
             let remoteID = FormatInt (ProjectID (Project payload))
             in if api_db_fails env OpGetRepoByRemoteID then (500, db, [])
                else case GetRepoByRemoteID db providerID remoteID of
                  None \<Rightarrow> (200, db, [])
                | Some repo \<Rightarrow>
                    if \<not> repo_review_enabled repo then (200, db, [])
                    else
                      let isDraft = webhook_isDraft payload;
                          isDraftToReady = webhook_isDraftToReady payload
                      in if isDraft \<and> \<not> isDraftToReady then
                           (if api_db_fails env OpCreateDraftReviewRun then (500, db, [])
                            else (200,
                                  CreateDraftReviewRun db (api_new_run_id env) (repo_id repo) mrIID,
                                  []))
                         else
                           let db1 = (if isDraftToReady
                                         \<and> \<not> api_db_fails env OpTransitionDraftToReview
                                      then TransitionDraftToReview db (repo_id repo) mrIID
                                      else db)
                           in case dispatcher of
                                None \<Rightarrow> (200, db1, [])
                              | Some d \<Rightarrow> webhook_dispatch env d db1 repo mrIID)"

definition ServeHTTP :: "api_env \<Rightarrow> RestateDispatcher option \<Rightarrow> database \<Rightarrow> http_request
    \<Rightarrow> webhook_result" where
  "ServeHTTP env dispatcher db r =
     (if req_Method r \<noteq> ''POST'' then (405, db, [])
      else
        let providerID = TrimSuffix (TrimPrefix (req_Path r) ''/webhooks/'') ''/''
        in if providerID = [] then (404, db, [])
           else if api_db_fails env OpGetProvider then (500, db, [])
           else case GetProvider db providerID of
             None \<Rightarrow> (404, db, [])
           | Some provider \<Rightarrow>
               if req_GitlabToken r = [] \<or> provider_webhook_secret provider = None
               then (401, db, [])
               else if ConstantTimeCompare (req_GitlabToken r) (the (provider_webhook_secret provider)) \<noteq> 1
               then (401, db, [])
               else case Decoder_Decode (req_Body r) of
                      None \<Rightarrow> (400, db, [])
                    | Some payload \<Rightarrow> webhook_event env dispatcher db providerID payload)"

subsection \<open>The admin RPC TriggerReview\<close>

record TriggerReviewRequest =
  tr_RepoId :: string
  tr_MrNumber :: int

datatype connect_code =
    CodeInvalidArgument
  | CodeNotFound
  | CodeInternal

definition TriggerReview :: "api_env \<Rightarrow> RestateDispatcher \<Rightarrow> database \<Rightarrow> TriggerReviewRequest
    \<Rightarrow> (connect_code + review_run) \<times> database \<times> restate_call list" where
  "TriggerReview env d db msg =
     (if tr_RepoId msg = [] then (Inl CodeInvalidArgument, db, [])
      else if tr_MrNumber msg \<le> 0 then (Inl CodeInvalidArgument, db, [])
      else if api_db_fails env OpGetRepo then (Inl CodeInternal, db, [])
      else case GetRepo db (tr_RepoId msg) of
        None \<Rightarrow> (Inl CodeNotFound, db, [])
      | Some _ \<Rightarrow>
          if api_db_fails env OpCreateReviewRun then (Inl CodeInternal, db, [])
          else
            let runID = api_new_run_id env;
                db1 = CreateReviewRun db runID (tr_RepoId msg) (tr_MrNumber msg);
                key = tr_RepoId msg @ ''-'' @ FormatInt (tr_MrNumber msg);
                preq = \<lparr> prr_RunID = runID, prr_RepoID = tr_RepoId msg,
                         prr_MRNumber = tr_MrNumber msg, prr_Force = True \<rparr>;
                calls = [CallSendPRReview key preq]
            in case SendPRReview d key preq of
                 None \<Rightarrow> (Inl CodeInternal, db1, calls)
               | Some invocationID \<Rightarrow>
                   if api_db_fails env OpUpdateReviewRunInvocationID
                   then (Inl CodeInternal, db1, calls)
                   else
                     let db2 = UpdateReviewRunInvocationID db1 runID invocationID
                     in if api_db_fails env OpGetReviewRun then (Inl CodeInternal, db2, calls)
                        else case GetReviewRun db2 runID of
                               None \<Rightarrow> (Inl CodeInternal, db2, calls)
                             | Some run \<Rightarrow> (Inr run, db2, calls))"

section \<open>Invariants and measures used in the statements\<close>

text \<open>The components of a result of \<open>Post\<close>.\<close>

definition post_resp :: "post_result \<Rightarrow> PostResponse" where
  "post_resp r = fst r"

definition post_err :: "post_result \<Rightarrow> service_error handler_error option" where
  "post_err r = fst (snd r)"

definition post_db :: "post_result \<Rightarrow> database" where
  "post_db r = fst (snd (snd r))"

definition post_calls :: "post_result \<Rightarrow> provider_call list" where
  "post_calls r = snd (snd (snd r))"

text \<open>The database component of a step of \<open>Run\<close>.\<close>

definition step_db :: "run_step \<Rightarrow> database" where
  "step_db r = fst (snd r)"



text \<open>The status of the row with the given id, if there is one.\<close>

definition status_of :: "database \<Rightarrow> string \<Rightarrow> review_status option" where
  "status_of db runID = map_option run_status (GetReviewRun db runID)"



text \<open>The column \<open>posted\<close> agrees with \<open>provider_comment_id IS NOT NULL\<close> on every row.\<close>

definition posted_iff_provider_id :: "database \<Rightarrow> bool" where
  "posted_iff_provider_id db =
     list_all (\<lambda>c. comment_posted c = (comment_provider_comment_id c \<noteq> None)) (review_comments db)"

section \<open>Example data\<close>

text \<open>
  A stand-in AEAD that satisfies the contract of \<open>Seal\<close> and \<open>Open\<close> (opening what was
  sealed under the same key and nonce gives the plaintext back), and a 32-byte key.
\<close>

definition plain_aead :: aead where
  "plain_aead = \<lparr> aead_seal = (\<lambda>key nonce p. p), aead_open = (\<lambda>key nonce c. Some c) \<rparr>"

definition zero_key :: bytes where
  "zero_key = replicate 32 0"

text \<open>
  One provider with one repository that has reviews enabled. The token is stored as the
  stand-in AEAD stores it: a 12-byte nonce followed by the token.
\<close>

definition example_provider :: provider_row where
  "example_provider =
     \<lparr> provider_id = ''p1'', provider_type = ''gitlab_cloud'', provider_base_url = [],
       provider_token_encrypted = replicate 12 0 @ [116], provider_webhook_secret = Some ''s3cr3t'',
       provider_deleted = False \<rparr>"

definition example_repo :: repo_row where
  "example_repo =
     \<lparr> repo_id = ''r1'', repo_provider_id = ''p1'', repo_remote_id = ''7'', repo_name = ''app'',
       repo_full_path = ''team/app'', repo_review_enabled = True \<rparr>"

definition example_db :: database where
  "example_db =
     \<lparr> providers = [example_provider], repositories = [example_repo],
       review_runs = [], review_comments = [] \<rparr>"

definition example_details :: MRDetails where
  "example_details =
     \<lparr> Title = ''Add orders'', Description = [], Author = ''dev'', SourceBranch = ''feature'',
       TargetBranch = ''main'', HeadSHA = ''bbb222'', Draft = False \<rparr>"

text \<open>
  A remote that answers every call; it rejects an inline comment on line 99 as an
  invalid position. \<open>lines\<close> is the changed-lines count of the diff it serves.
\<close>

definition example_client :: "int \<Rightarrow> GitProvider" where
  "example_client lines =
     \<lparr> GetMRDiff = (\<lambda>remote mr. Inr \<lparr> UnifiedDiff = ''+x'', ChangedFiles = [], ChangedLines = lines \<rparr>),
       GetMRDetails = (\<lambda>remote mr. Inr example_details),
       PostComment = (\<lambda>remote mr body. Inr ''note1''),
       PostInlineComment = (\<lambda>remote mr ic. if ic_Line ic = 99 then Inl ErrInvalidInput
                                              else Inr ''disc1'') \<rparr>"

definition example_env :: "GitProvider \<Rightarrow> worker_env" where
  "example_env client =
     \<lparr> db_fails = (\<lambda>op. False), gcm = plain_aead, encKey = zero_key,
       gitlab_New = (\<lambda>baseURL token. client), new_run_id = ''run9'',
       new_comment_id = (\<lambda>n. ''c'' @ format_nat n), now_UnixMilli = 1000000,
       sleep_cancelled = False,
       reviewer_RunReview = (\<lambda>input. Inr \<lparr> rout_Summary = ''fine'', rout_Comments = [] \<rparr>) \<rparr>"

definition example_run :: "string \<Rightarrow> review_status \<Rightarrow> string option \<Rightarrow> review_run" where
  "example_run rid st h =
     \<lparr> run_id = rid, run_repo_id = ''r1'', run_mr_number = 4, run_status = st,
       run_summary = None, run_diff_hash = h, run_restate_invocation_id = None \<rparr>"

definition example_request :: RunRequest where
  "example_request =
     \<lparr> rr_RunID = ''run1'', rr_RepoID = ''r1'', rr_MRNumber = 4, rr_DryRun = False,
       rr_Force = False \<rparr>"



definition example_fetch_request :: FetchRequest where
  "example_fetch_request = \<lparr> freq_RepoID = ''r1'', freq_MRNumber = 4, freq_Force = False \<rparr>"


text \<open>
  The API server's side: no failing statement, a runtime that accepts every submission
  with invocation id \<open>inv1\<close>, and a webhook request with the provider's secret.
\<close>

definition example_api_env :: api_env where
  "example_api_env = \<lparr> api_db_fails = (\<lambda>op. False), api_new_run_id = ''run2'' \<rparr>"

definition example_dispatcher :: RestateDispatcher where
  "example_dispatcher =
     \<lparr> SendPRReview = (\<lambda>key req. Some ''inv1''), CancelInvocation = (\<lambda>invocationID. False) \<rparr>"

definition example_webhook :: "GitLabWebhookPayload option \<Rightarrow> http_request" where
  "example_webhook body =
     \<lparr> req_Method = ''POST'', req_Path = ''/webhooks/p1'', req_GitlabToken = ''s3cr3t'',
       req_Body = \<lparr> body_first = (case body of None \<Rightarrow> DecodeSyntaxError
                                      | Some payload \<Rightarrow> Decoded payload),
                    body_rest = [] \<rparr> \<rparr>"



definition draft_ready_payload :: GitLabWebhookPayload where
  "draft_ready_payload =
     \<lparr> ObjectKind = ''merge_request'', Project = \<lparr> ProjectID = 7 \<rparr>,
       ObjectAttributes = \<lparr> IID = 4, Action = ''update'', AttrDraft = False, WorkInProgress = False \<rparr>,
       Changes = Some \<lparr> ChangesDraft = Some \<lparr> Previous = JBool True, Current = JBool False \<rparr> \<rparr> \<rparr>"

section \<open>Webhook classification\<close>

text \<open>
  Claim C10. The handler treats an event as a draft-to-ready transition exactly when the
  action is \<open>update\<close> and \<open>changes.draft\<close> is present with \<open>previous\<close> the JSON
  boolean true and \<open>current\<close> the JSON boolean false. So an absent \<open>changes\<close> object, an
  absent \<open>draft\<close> field, a null or any other non-boolean value on either side never
  count as a transition.
\<close>

theorem draft_to_ready_classification:
  "webhook_isDraftToReady payload \<longleftrightarrow>
     Action (ObjectAttributes payload) = ''update'' \<and>
     (\<exists>c d. Changes payload = Some c \<and> ChangesDraft c = Some d
            \<and> Previous d = JBool True \<and> Current d = JBool False)"
proof -
  have "isDraftToReadyTransition ch \<longleftrightarrow>
     (\<exists>c d. ch = Some c \<and> ChangesDraft c = Some d
            \<and> Previous d = JBool True \<and> Current d = JBool False)" for ch
  proof (cases ch)
    case None
    then show ?thesis by (simp add: isDraftToReadyTransition_def)
  next
    case (Some c)
    show ?thesis
    proof (cases "ChangesDraft c")
      case None
      with Some show ?thesis by (simp add: isDraftToReadyTransition_def)
    next
      case (Some d)
      with \<open>ch = Some c\<close> show ?thesis
        by (cases "Previous d"; cases "Current d") (auto simp: isDraftToReadyTransition_def)
    qed
  qed
  then show ?thesis by (simp add: webhook_isDraftToReady_def)
qed

theorem draft_to_ready_classification_witness:
  "webhook_isDraftToReady draft_ready_payload
   \<and> \<not> webhook_isDraftToReady
         (draft_ready_payload\<lparr> Changes := Some \<lparr> ChangesDraft =
             Some \<lparr> Previous = JString ''true'', Current = JBool False \<rparr> \<rparr> \<rparr>)
   \<and> \<not> webhook_isDraftToReady
         (draft_ready_payload\<lparr> Changes := Some \<lparr> ChangesDraft =
             Some \<lparr> Previous = JBool True, Current = JNil \<rparr> \<rparr> \<rparr>)
   \<and> \<not> webhook_isDraftToReady (draft_ready_payload\<lparr> Changes := None \<rparr>)"
  using draft_to_ready_classification [of draft_ready_payload]
    draft_to_ready_classification [of "draft_ready_payload\<lparr> Changes := Some \<lparr> ChangesDraft =
             Some \<lparr> Previous = JString ''true'', Current = JBool False \<rparr> \<rparr> \<rparr>"]
    draft_to_ready_classification [of "draft_ready_payload\<lparr> Changes := Some \<lparr> ChangesDraft =
             Some \<lparr> Previous = JBool True, Current = JNil \<rparr> \<rparr> \<rparr>"]
    draft_to_ready_classification [of "draft_ready_payload\<lparr> Changes := None \<rparr>"]
  by (simp add: draft_ready_payload_def)

section \<open>Token encryption\<close>

text \<open>
  Claim C8. With a 32-byte key, and an AEAD primitive that opens what it sealed,
  \<open>Decrypt\<close> of \<open>Encrypt\<close> gives the plaintext back, for every plaintext and every
  outcome of the random nonce; and two encryptions of the same plaintext under the same
  key whose nonces differ give different ciphertexts.
\<close>

theorem encrypt_decrypt_roundtrip:
  assumes key: "length key = 32"
    and lib: "\<forall>nonce p. length nonce = NonceSize \<longrightarrow>
                aead_open prim key nonce (aead_seal prim key nonce p) = Some p"
  shows "(\<exists>c. Encrypt prim (Some src) plaintext key = Inr c \<and> Decrypt prim c key = Inr plaintext)
       \<and> (read_nonce src \<noteq> read_nonce src' \<longrightarrow>
            Encrypt prim (Some src) plaintext key \<noteq> Encrypt prim (Some src') plaintext key)"
proof -
  have k: "aes_NewCipher_ok key" using key by (simp add: aes_NewCipher_ok_def)
  have n: "length (read_nonce s) = NonceSize" for s by (simp add: read_nonce_def)
  let ?c = "read_nonce src @ aead_seal prim key (read_nonce src) plaintext"
  have e: "Encrypt prim (Some src) plaintext key = Inr ?c"
    using k by (simp add: Encrypt_def Let_def)
  have d: "Decrypt prim ?c key = Inr plaintext"
    using k n [of src] lib by (simp add: Decrypt_def Let_def)
  have u: "Encrypt prim (Some src) plaintext key \<noteq> Encrypt prim (Some src') plaintext key"
    if "read_nonce src \<noteq> read_nonce src'"
    using that k n [of src] n [of src'] by (simp add: Encrypt_def Let_def)
  from e d u show ?thesis by blast
qed

theorem encrypt_decrypt_roundtrip_witness:
  "length zero_key = 32
   \<and> (\<exists>c. Encrypt plain_aead (Some (\<lambda>i. 0)) [104, 105] zero_key = Inr c
          \<and> Decrypt plain_aead c zero_key = Inr [104, 105])
   \<and> Encrypt plain_aead (Some (\<lambda>i. 0)) [104, 105] zero_key
       \<noteq> Encrypt plain_aead (Some (\<lambda>i. 1)) [104, 105] zero_key"
proof -
  have key: "length zero_key = 32" by (simp add: zero_key_def)
  have lib: "\<forall>nonce p. length nonce = NonceSize \<longrightarrow>
         aead_open plain_aead zero_key nonce (aead_seal plain_aead zero_key nonce p) = Some p"
    by (simp add: plain_aead_def)
  have "read_nonce (\<lambda>i. 0) ! 0 \<noteq> read_nonce (\<lambda>i. 1) ! 0"
    by (simp add: read_nonce_def NonceSize_def)
  then have ne: "read_nonce (\<lambda>i. 0) \<noteq> read_nonce (\<lambda>i. 1)" by metis
  from encrypt_decrypt_roundtrip [OF key lib, of "\<lambda>i. 0" "[104, 105]" "\<lambda>i. 1"] key lib ne
  show ?thesis by blast
qed

section \<open>Helper facts\<close>

lemma post_tuple [simp]:
  "post_resp (r, e, d, c) = r" "post_err (r, e, d, c) = e"
  "post_db (r, e, d, c) = d" "post_calls (r, e, d, c) = c"
  by (simp_all add: post_resp_def post_err_def post_db_def post_calls_def)

lemma step_db_tuple [simp]: "step_db (r, d, c) = d"
  by (simp add: step_db_def)

lemmas example_defs =
  example_env_def example_client_def example_db_def example_repo_def example_provider_def
  example_details_def example_run_def example_request_def example_fetch_request_def
  example_api_env_def example_dispatcher_def example_webhook_def draft_ready_payload_def
  plain_aead_def zero_key_def

lemmas fetch_defs =
  FetchPRDetails_def GetRepoWithProvider_def Decrypt_def aes_NewCipher_ok_def NonceSize_def
  newProvider_def fetch_dedup_def GetLatestReviewDiffHash_def most_recent_def fetch_diff_def
  maxChangedLines_def FetchResponse_zero_def

lemmas run_defs =
  Run_def run_select_row_def restate_Get_int64_def debounce_def run_pipeline_def run_after_fetch_def
  run_post_and_complete_def run_review_def run_fail_def tooLargeSummary_def
  UpdateReviewRunDiffHash_def UpdateReviewRunStatus_def UpdateReviewRunSummary_def update_runs_def
  Post_def post_to_provider_def GetUnpostedComments_def PostResponse_zero_def
  status_of_def GetReviewRun_def

section \<open>Adaptive debounce\<close>

lemma sint_now_minus:
  fixes now v :: "64 word"
  assumes "0 < sint v" "sint v \<le> sint now"
  shows "sint (now - v) = sint now - sint v"
proof -
  have "sint now < 2 ^ 63" using sint_lt [of now] by simp
  with assms have "- (2 ^ 63) \<le> sint now - sint v" "sint now - sint v < 2 ^ 63" by simp_all
  then show ?thesis by (simp add: sint_word_diff signed_take_bit_int_eq_self)
qed

lemma Run_state: "out_last_started_at (Run env st db req) = Some (now_UnixMilli env)"
  by (simp add: Run_def Let_def split: prod.splits sum.splits)

lemma Run_slept: "out_slept (Run env st db req) = debounce (restate_Get_int64 st) (now_UnixMilli env)"
  by (simp add: Run_def Let_def split: prod.splits sum.splits)

text \<open>
  Claim C6. Every execution of \<open>Run\<close> leaves \<open>last_started_at\<close> set to the current
  time. Stored values are earlier readings of the clock: positive and not after now.
  Then the execution is suspended by the durable sleep exactly when a stored value exists
  and less than three minutes (180000 ms) have passed since; otherwise it goes on at
  once. Unless the sleep is cancelled, the execution then does what it does without the
  sleep.
\<close>

theorem debounce_on_run:
  assumes "\<forall>v. st = Some v \<longrightarrow> 0 < sint v \<and> sint v \<le> sint (now_UnixMilli env)"
  shows "out_last_started_at (Run env st db req) = Some (now_UnixMilli env)
       \<and> (out_slept (Run env st db req) \<longleftrightarrow>
            (\<exists>v. st = Some v \<and> sint (now_UnixMilli env) - sint v < 3 * 60 * 1000))
       \<and> (\<not> sleep_cancelled env \<longrightarrow>
            Run env st db req = (Run env None db req)\<lparr> out_slept := out_slept (Run env st db req) \<rparr>)"
proof -
  have p: "Run env st db req = (Run env None db req)\<lparr> out_slept := out_slept (Run env st db req) \<rparr>"
    if "\<not> sleep_cancelled env"
    using that by (simp add: Run_def Let_def split: prod.splits sum.splits)
  show ?thesis
  proof (cases st)
    case None
    then show ?thesis
      using p by (simp add: Run_state Run_slept restate_Get_int64_def debounce_def)
  next
    case (Some v)
    with assms have "0 < sint v" "sint v \<le> sint (now_UnixMilli env)" by simp_all
    then show ?thesis
      using Some p
      by (simp add: Run_state Run_slept restate_Get_int64_def debounce_def sint_now_minus)
  qed
qed

theorem debounce_on_run_witness:
  "out_slept (Run (example_env (example_client 10)) (Some 900000) example_db example_request)
   \<and> \<not> out_slept (Run (example_env (example_client 10)) (Some 100000) example_db example_request)
   \<and> \<not> out_slept (Run (example_env (example_client 10)) None example_db example_request)
   \<and> out_last_started_at (Run (example_env (example_client 10)) (Some 900000) example_db example_request)
       = Some 1000000"
proof -
  let ?env = "example_env (example_client 10)"
  have now: "now_UnixMilli ?env = 1000000" by (simp add: example_env_def)
  have h1: "\<forall>v. Some (900000 :: 64 word) = Some v \<longrightarrow> 0 < sint v \<and> sint v \<le> sint (now_UnixMilli ?env)"
    by (simp add: now)
  have h2: "\<forall>v. Some (100000 :: 64 word) = Some v \<longrightarrow> 0 < sint v \<and> sint v \<le> sint (now_UnixMilli ?env)"
    by (simp add: now)
  have h3: "\<forall>v. (None :: 64 word option) = Some v \<longrightarrow> 0 < sint v \<and> sint v \<le> sint (now_UnixMilli ?env)"
    by simp
  from debounce_on_run [OF h1, of example_db example_request]
    debounce_on_run [OF h2, of example_db example_request]
    debounce_on_run [OF h3, of example_db example_request]
  show ?thesis by (simp add: now)
qed

section \<open>Terminal and retryable provider errors\<close>

lemma classify_terminal_iff:
  "is_terminal (difffetcher_classifyProviderError err) \<longleftrightarrow>
     err = ErrNotFound \<or> err = ErrUnauthorized \<or> err = ErrForbidden"
  "is_terminal (postreview_classifyProviderError err) \<longleftrightarrow>
     err = ErrNotFound \<or> err = ErrUnauthorized \<or> err = ErrForbidden"
  by (simp_all add: difffetcher_classifyProviderError_def postreview_classifyProviderError_def
      is_terminal_def)

lemma find_map_status:
  "find (\<lambda>r. run_id r = i) (map (\<lambda>r. if run_id r = i then r\<lparr> run_status := st \<rparr> else r) rs)
   = map_option (\<lambda>r. r\<lparr> run_status := st \<rparr>) (find (\<lambda>r. run_id r = i) rs)"
  by (induction rs) auto

lemma status_of_Update:
  "status_of (UpdateReviewRunStatus db i st) i = map_option (\<lambda>_. st) (status_of db i)"
  by (simp add: status_of_def GetReviewRun_def UpdateReviewRunStatus_def update_runs_def
      find_map_status option.map_comp comp_def)

lemma run_pipeline_terminal:
  assumes "FetchPRDetails env db \<lparr> freq_RepoID = rr_RepoID req, freq_MRNumber = rr_MRNumber req,
               freq_Force = rr_Force req \<rparr> = (Inl (TerminalError e code), calls)"
    and "\<not> db_fails env (OpUpdateReviewRunStatus StatusFailed)"
  shows "run_pipeline env db req runID =
           (RunError (TerminalError e code), UpdateReviewRunStatus db runID StatusFailed, calls)"
  using assms by (simp add: run_pipeline_def run_fail_def)

lemma run_post_terminal:
  assumes "Post env db \<lparr> preq_ReviewRunID = runID, preq_RepoID = rr_RepoID req,
                          preq_MRNumber = rr_MRNumber req, preq_RepoRemoteID = remote,
                          preq_Summary = summary, preq_DryRun = rr_DryRun req \<rparr>
             = (resp, Some (TerminalError e code), db1, calls)"
    and "\<not> db_fails env (OpUpdateReviewRunStatus StatusFailed)"
  shows "run_post_and_complete env db req runID remote summary =
           (RunError (TerminalError e code), UpdateReviewRunStatus db1 runID StatusFailed, calls)"
  using assms by (simp add: run_post_and_complete_def run_fail_def)


text \<open>
  Claim C3, as the code has it. Both classifiers make a provider error terminal exactly
  when it is NotFound, Unauthorized or Forbidden; RateLimited, InvalidInput and every
  other error are handed back as plain errors, which the runtime retries. Whenever the
  diff fetcher or the comment poster returns a terminal error, the orchestrator writes
  status \<open>failed\<close> on the run row (if that write succeeds) and returns the error.
\<close>

theorem terminal_provider_errors:
  "(is_terminal (difffetcher_classifyProviderError err) \<longleftrightarrow>
      err = ErrNotFound \<or> err = ErrUnauthorized \<or> err = ErrForbidden)
   \<and> (is_terminal (postreview_classifyProviderError err) \<longleftrightarrow>
      err = ErrNotFound \<or> err = ErrUnauthorized \<or> err = ErrForbidden)
   \<and> (FetchPRDetails env db \<lparr> freq_RepoID = rr_RepoID req, freq_MRNumber = rr_MRNumber req,
               freq_Force = rr_Force req \<rparr> = (Inl (TerminalError e code), calls)
        \<and> \<not> db_fails env (OpUpdateReviewRunStatus StatusFailed) \<longrightarrow>
        run_pipeline env db req runID =
           (RunError (TerminalError e code), UpdateReviewRunStatus db runID StatusFailed, calls))
   \<and> (Post env db \<lparr> preq_ReviewRunID = runID, preq_RepoID = rr_RepoID req,
                          preq_MRNumber = rr_MRNumber req, preq_RepoRemoteID = remote,
                          preq_Summary = summary, preq_DryRun = rr_DryRun req \<rparr>
             = (resp, Some (TerminalError e code), db_after, calls)
        \<and> \<not> db_fails env (OpUpdateReviewRunStatus StatusFailed) \<longrightarrow>
        run_post_and_complete env db req runID remote summary =
           (RunError (TerminalError e code), UpdateReviewRunStatus db_after runID StatusFailed, calls))
   \<and> status_of (UpdateReviewRunStatus db_any runID StatusFailed) runID
        = map_option (\<lambda>_. StatusFailed) (status_of db_any runID)"
  using classify_terminal_iff [of err] run_pipeline_terminal [of env db req e code calls runID]
    run_post_terminal [of env db runID req remote summary resp e code db_after calls]
    status_of_Update [of db_any runID StatusFailed]
  by blast

text \<open>
  A repository whose provider answers \<open>GetMRDetails\<close> with NotFound: the fetch fails
  terminally with code 404 and the pending run row ends \<open>failed\<close>. And a provider that
  refuses the summary note with Forbidden: \<open>Post\<close> fails terminally with code 403 and
  the running row ends \<open>failed\<close>.
\<close>

theorem terminal_provider_errors_witness:
  "is_terminal (difffetcher_classifyProviderError ErrNotFound)
   \<and> run_pipeline
        (example_env ((example_client 10)\<lparr> GetMRDetails := \<lambda>remote mr. Inl ErrNotFound \<rparr>))
        (example_db\<lparr> review_runs := [example_run ''run1'' StatusPending None] \<rparr>)
        example_request ''run1''
      = (RunError (TerminalError (ProviderError ErrNotFound) 404),
         example_db\<lparr> review_runs := [example_run ''run1'' StatusFailed None] \<rparr>,
         [CallGetMRDetails ''7'' 4])
   \<and> run_post_and_complete
        (example_env ((example_client 10)\<lparr> PostComment := \<lambda>remote mr body. Inl ErrForbidden \<rparr>))
        (example_db\<lparr> review_runs := [example_run ''run1'' StatusRunning None] \<rparr>)
        example_request ''run1'' ''7'' ''fine''
      = (RunError (TerminalError (ProviderError ErrForbidden) 403),
         example_db\<lparr> review_runs :=
           [(example_run ''run1'' StatusFailed None)\<lparr> run_summary := Some ''fine'' \<rparr>] \<rparr>,
         [CallPostComment ''7'' 4 ''fine''])"
proof -
  let ?env = "example_env ((example_client 10)\<lparr> GetMRDetails := \<lambda>remote mr. Inl ErrNotFound \<rparr>)"
  let ?db = "example_db\<lparr> review_runs := [example_run ''run1'' StatusPending None] \<rparr>"
  have f: "FetchPRDetails ?env ?db
             \<lparr> freq_RepoID = rr_RepoID example_request, freq_MRNumber = rr_MRNumber example_request,
               freq_Force = rr_Force example_request \<rparr>
           = (Inl (TerminalError (ProviderError ErrNotFound) 404), [CallGetMRDetails ''7'' 4])"
    by (simp add: fetch_defs difffetcher_classifyProviderError_def example_defs)
  have d: "\<not> db_fails ?env (OpUpdateReviewRunStatus StatusFailed)"
    by (simp add: example_env_def)
  have u: "UpdateReviewRunStatus ?db ''run1'' StatusFailed
           = example_db\<lparr> review_runs := [example_run ''run1'' StatusFailed None] \<rparr>"
    by (simp add: UpdateReviewRunStatus_def update_runs_def example_defs)
  let ?env2 = "example_env ((example_client 10)\<lparr> PostComment := \<lambda>remote mr body. Inl ErrForbidden \<rparr>)"
  let ?db2 = "example_db\<lparr> review_runs := [example_run ''run1'' StatusRunning None] \<rparr>"
  let ?db3 = "example_db\<lparr> review_runs :=
                [(example_run ''run1'' StatusRunning None)\<lparr> run_summary := Some ''fine'' \<rparr>] \<rparr>"
  have p: "Post ?env2 ?db2
             \<lparr> preq_ReviewRunID = ''run1'', preq_RepoID = rr_RepoID example_request,
               preq_MRNumber = rr_MRNumber example_request, preq_RepoRemoteID = ''7'',
               preq_Summary = ''fine'', preq_DryRun = rr_DryRun example_request \<rparr>
           = (PostResponse_zero, Some (TerminalError (ProviderError ErrForbidden) 403), ?db3,
              [CallPostComment ''7'' 4 ''fine''])"
    by (simp add: Post_def post_to_provider_def UpdateReviewRunSummary_def update_runs_def
        GetRepoWithProvider_def Decrypt_def aes_NewCipher_ok_def NonceSize_def newProvider_def
        postreview_classifyProviderError_def example_defs)
  have d2: "\<not> db_fails ?env2 (OpUpdateReviewRunStatus StatusFailed)"
    by (simp add: example_env_def)
  have u2: "UpdateReviewRunStatus ?db3 ''run1'' StatusFailed
           = example_db\<lparr> review_runs :=
               [(example_run ''run1'' StatusFailed None)\<lparr> run_summary := Some ''fine'' \<rparr>] \<rparr>"
    by (simp add: UpdateReviewRunStatus_def update_runs_def example_defs)
  have a: "run_pipeline ?env ?db example_request ''run1''
      = (RunError (TerminalError (ProviderError ErrNotFound) 404),
         example_db\<lparr> review_runs := [example_run ''run1'' StatusFailed None] \<rparr>,
         [CallGetMRDetails ''7'' 4])"
    using terminal_provider_errors [where err = ErrNotFound and env = ?env and db = ?db
      and req = example_request and e = "ProviderError ErrNotFound" and code = 404
      and calls = "[CallGetMRDetails ''7'' 4]" and runID = "''run1''"] f d u
    by simp
  have b: "run_post_and_complete ?env2 ?db2 example_request ''run1'' ''7'' ''fine''
      = (RunError (TerminalError (ProviderError ErrForbidden) 403),
         example_db\<lparr> review_runs :=
           [(example_run ''run1'' StatusFailed None)\<lparr> run_summary := Some ''fine'' \<rparr>] \<rparr>,
         [CallPostComment ''7'' 4 ''fine''])"
    using terminal_provider_errors [where err = ErrForbidden and env = ?env2 and db = ?db2
      and req = example_request and e = "ProviderError ErrForbidden" and code = 403
      and calls = "[CallPostComment ''7'' 4 ''fine'']" and runID = "''run1''"
      and remote = "''7''" and summary = "''fine''" and resp = PostResponse_zero and db_after = ?db3]
      p d2 u2
    by simp
  have c: "is_terminal (difffetcher_classifyProviderError ErrNotFound)"
    using terminal_provider_errors [where err = ErrNotFound] by simp
  from a b c show ?thesis by simp
qed

text \<open>
  The claim as stated fails for RateLimited and InvalidInput: neither is classified as
  terminal, and a rate-limited \<open>GetMRDetails\<close> leaves the orchestrator waiting on the
  retried fetch with the run row still \<open>pending\<close>, not \<open>failed\<close>.
\<close>

theorem rate_limited_not_terminal:
  "\<not> is_terminal (difffetcher_classifyProviderError ErrRateLimited)
   \<and> \<not> is_terminal (postreview_classifyProviderError ErrInvalidInput)
   \<and> out_result
        (Run (example_env ((example_client 10)\<lparr> GetMRDetails := \<lambda>remote mr. Inl ErrRateLimited \<rparr>))
           None (example_db\<lparr> review_runs := [example_run ''run1'' StatusPending None] \<rparr>)
           example_request)
      = RunAwaitingRetry (PlainError (ProviderError ErrRateLimited))
   \<and> status_of
        (out_db
          (Run (example_env ((example_client 10)\<lparr> GetMRDetails := \<lambda>remote mr. Inl ErrRateLimited \<rparr>))
             None (example_db\<lparr> review_runs := [example_run ''run1'' StatusPending None] \<rparr>)
             example_request))
        ''run1''
      = Some StatusPending"
  by (simp add: difffetcher_classifyProviderError_def postreview_classifyProviderError_def
      is_terminal_def run_defs fetch_defs example_defs)

section \<open>Posting inline comments\<close>


lemma Mark_sets_row:
  "\<forall>x \<in> set (review_comments (MarkCommentPosted db i p)).
      comment_id x = i \<longrightarrow> comment_provider_comment_id x = Some p \<and> comment_posted x"
proof -
  have "list_all (\<lambda>x. comment_id x = i \<longrightarrow> comment_provider_comment_id x = Some p \<and> comment_posted x)
          (map (\<lambda>c. if comment_id c = i
                    then c\<lparr> comment_posted := True, comment_provider_comment_id := Some p \<rparr>
                    else c) xs)" for xs
    by (induction xs) simp_all
  then show ?thesis by (simp add: MarkCommentPosted_def list_all_iff)
qed

lemma GetUnposted_under_inv:
  assumes "posted_iff_provider_id db"
  shows "GetUnpostedComments db runID =
         map to_row (filter (\<lambda>c. comment_review_run_id c = runID \<and> comment_provider_comment_id c = None)
                        (review_comments db))"
proof -
  have "filter (\<lambda>c. comment_review_run_id c = runID \<and> comment_posted c = False) (review_comments db)
      = filter (\<lambda>c. comment_review_run_id c = runID \<and> comment_provider_comment_id c = None) (review_comments db)"
    using assms by (intro filter_cong) (auto simp: posted_iff_provider_id_def list_all_iff)
  then show ?thesis by (simp add: GetUnpostedComments_def)
qed




section \<open>Diff-hash dedup\<close>

lemma most_recent_Some_iff:
  "most_recent P xs = Some r \<longleftrightarrow> (\<exists>pre post. xs = pre @ r # post \<and> P r \<and> (\<forall>x \<in> set post. \<not> P x))"
proof (induction xs rule: rev_induct)
  case Nil
  then show ?case by (simp add: most_recent_def)
next
  case (snoc x xs)
  show ?case
  proof (cases "P x")
    case True
    have "(\<exists>pre post. xs @ [x] = pre @ r # post \<and> P r \<and> (\<forall>y \<in> set post. \<not> P y)) \<longleftrightarrow> r = x"
    proof
      assume "\<exists>pre post. xs @ [x] = pre @ r # post \<and> P r \<and> (\<forall>y \<in> set post. \<not> P y)"
      then obtain pre post where e: "xs @ [x] = pre @ r # post" "\<forall>y \<in> set post. \<not> P y" by blast
      show "r = x"
      proof (cases post rule: rev_cases)
        case Nil
        with e show ?thesis by simp
      next
        case (snoc ys y)
        with e have "y = x" by (metis append_assoc append_Cons last_snoc)
        with snoc e True show ?thesis by simp
      qed
    next
      assume "r = x"
      with True show "\<exists>pre post. xs @ [x] = pre @ r # post \<and> P r \<and> (\<forall>y \<in> set post. \<not> P y)"
        by (intro exI [of _ xs] exI [of _ "[]"]) simp
    qed
    with True show ?thesis by (auto simp: most_recent_def)
  next
    case False
    have "(\<exists>pre post. xs @ [x] = pre @ r # post \<and> P r \<and> (\<forall>y \<in> set post. \<not> P y))
        \<longleftrightarrow> (\<exists>pre post. xs = pre @ r # post \<and> P r \<and> (\<forall>y \<in> set post. \<not> P y))"
    proof
      assume "\<exists>pre post. xs @ [x] = pre @ r # post \<and> P r \<and> (\<forall>y \<in> set post. \<not> P y)"
      then obtain pre post where e: "xs @ [x] = pre @ r # post" "P r" "\<forall>y \<in> set post. \<not> P y" by blast
      show "\<exists>pre post. xs = pre @ r # post \<and> P r \<and> (\<forall>y \<in> set post. \<not> P y)"
      proof (cases post rule: rev_cases)
        case Nil
        with e False show ?thesis by simp
      next
        case (snoc ys y)
        with e have "xs = pre @ r # ys" by simp
        with e snoc show ?thesis by auto
      qed
    next
      assume "\<exists>pre post. xs = pre @ r # post \<and> P r \<and> (\<forall>y \<in> set post. \<not> P y)"
      then obtain pre post where e: "xs = pre @ r # post" "P r" "\<forall>y \<in> set post. \<not> P y" by blast
      with False show "\<exists>pre post. xs @ [x] = pre @ r # post \<and> P r \<and> (\<forall>y \<in> set post. \<not> P y)"
        by (intro exI [of _ pre] exI [of _ "post @ [x]"]) simp
    qed
    with False snoc.IH show ?thesis by (simp add: most_recent_def)
  qed
qed

text \<open>A completed row of the pair that carries a hash: what the dedup lookup ranges over.\<close>

lemma GetLatestReviewDiffHash_Some_iff:
  "GetLatestReviewDiffHash db repoID mrNumber = Some h \<longleftrightarrow>
     (\<exists>pre r post. review_runs db = pre @ r # post
        \<and> run_repo_id r = repoID \<and> run_mr_number r = mrNumber
        \<and> run_status r = StatusCompleted \<and> run_diff_hash r = Some h
        \<and> (\<forall>x \<in> set post. \<not> (run_repo_id x = repoID \<and> run_mr_number x = mrNumber
                                  \<and> run_status x = StatusCompleted \<and> run_diff_hash x \<noteq> None)))"
proof -
  let ?P = "\<lambda>r. run_repo_id r = repoID \<and> run_mr_number r = mrNumber
                \<and> run_status r = StatusCompleted \<and> run_diff_hash r \<noteq> None"
  have "GetLatestReviewDiffHash db repoID mrNumber = Some h \<longleftrightarrow>
        (\<exists>r. most_recent ?P (review_runs db) = Some r \<and> run_diff_hash r = Some h)"
    by (simp add: GetLatestReviewDiffHash_def split: option.split)
  also have "\<dots> \<longleftrightarrow> (\<exists>r pre post. review_runs db = pre @ r # post \<and> ?P r
                         \<and> (\<forall>x \<in> set post. \<not> ?P x) \<and> run_diff_hash r = Some h)"
    by (simp only: most_recent_Some_iff) blast
  also have "\<dots> \<longleftrightarrow> (\<exists>pre r post. review_runs db = pre @ r # post
        \<and> run_repo_id r = repoID \<and> run_mr_number r = mrNumber
        \<and> run_status r = StatusCompleted \<and> run_diff_hash r = Some h
        \<and> (\<forall>x \<in> set post. \<not> ?P x))"
    by (rule iffI; (elim exE conjE, intro exI conjI; (assumption | simp)))
  finally show ?thesis .
qed

lemma fetch_skip:
  assumes "\<not> freq_Force req"
    and "\<not> db_fails env OpGetRepoWithProvider"
    and "GetRepoWithProvider db (freq_RepoID req) = Some (repo, prov)"
    and "Decrypt (gcm env) (provider_token_encrypted prov) (encKey env) = Inr token"
    and "newProvider env (provider_type prov) (provider_base_url prov) token = Inr client"
    and "GetMRDetails client (repo_remote_id repo) (freq_MRNumber req) = Inr details"
    and "\<not> db_fails env OpGetLatestReviewDiffHash"
  shows "FetchPRDetails env db req =
           (if GetLatestReviewDiffHash db (freq_RepoID req) (freq_MRNumber req) = Some (HeadSHA details)
            then (Inr (FetchResponse_zero\<lparr> fr_Skip := True, fr_DiffHash := HeadSHA details \<rparr>),
                  [CallGetMRDetails (repo_remote_id repo) (freq_MRNumber req)])
            else fetch_diff client repo req details)"
  using assms
  by (cases "GetLatestReviewDiffHash db (freq_RepoID req) (freq_MRNumber req)")
     (simp_all add: FetchPRDetails_def fetch_dedup_def Let_def)

text \<open>
  Claim C2, as the code has it. With \<open>force = false\<close>, once the repository, its provider
  and the merge-request details are loaded and the dedup lookup is executed:
  \<open>FetchPRDetails\<close> answers \<open>skip = true\<close> with the head commit SHA as \<open>diff_hash\<close>,
  having called \<open>GetMRDetails\<close> only, exactly when the most recent completed run of the
  pair that has a \<open>diff_hash\<close> carries the head SHA; in every other case it goes on to
  \<open>GetMRDiff\<close>. An older completed run with the same hash does not count.
\<close>

theorem dedup_skip:
  assumes "\<not> freq_Force req"
    and "\<not> db_fails env OpGetRepoWithProvider"
    and "GetRepoWithProvider db (freq_RepoID req) = Some (repo, prov)"
    and "Decrypt (gcm env) (provider_token_encrypted prov) (encKey env) = Inr token"
    and "newProvider env (provider_type prov) (provider_base_url prov) token = Inr client"
    and "GetMRDetails client (repo_remote_id repo) (freq_MRNumber req) = Inr details"
    and "\<not> db_fails env OpGetLatestReviewDiffHash"
  shows "(if (\<exists>pre r post. review_runs db = pre @ r # post
              \<and> run_repo_id r = freq_RepoID req \<and> run_mr_number r = freq_MRNumber req
              \<and> run_status r = StatusCompleted \<and> run_diff_hash r = Some (HeadSHA details)
              \<and> (\<forall>x \<in> set post. \<not> (run_repo_id x = freq_RepoID req
                     \<and> run_mr_number x = freq_MRNumber req
                     \<and> run_status x = StatusCompleted \<and> run_diff_hash x \<noteq> None)))
          then (\<exists>resp. FetchPRDetails env db req =
                   (Inr resp, [CallGetMRDetails (repo_remote_id repo) (freq_MRNumber req)])
                 \<and> fr_Skip resp \<and> fr_DiffHash resp = HeadSHA details)
          else FetchPRDetails env db req = fetch_diff client repo req details)"
  unfolding GetLatestReviewDiffHash_Some_iff [symmetric] fetch_skip [OF assms]
  by simp

theorem dedup_skip_witness:
  "(\<exists>resp. FetchPRDetails (example_env (example_client 10))
             (example_db\<lparr> review_runs :=
                [example_run ''run1'' StatusCompleted (Some ''aaa111''),
                 example_run ''run2'' StatusCompleted (Some ''bbb222''),
                 example_run ''run3'' StatusFailed None] \<rparr>)
             example_fetch_request
           = (Inr resp, [CallGetMRDetails ''7'' 4])
         \<and> fr_Skip resp \<and> fr_DiffHash resp = ''bbb222'')"
proof -
  let ?env = "example_env (example_client 10)"
  let ?runs = "[example_run ''run1'' StatusCompleted (Some ''aaa111''),
                 example_run ''run2'' StatusCompleted (Some ''bbb222''),
                 example_run ''run3'' StatusFailed None]"
  let ?db = "example_db\<lparr> review_runs := ?runs \<rparr>"
  have a: "\<not> freq_Force example_fetch_request" "\<not> db_fails ?env OpGetRepoWithProvider"
    "\<not> db_fails ?env OpGetLatestReviewDiffHash"
    by (simp_all add: example_defs)
  have b: "GetRepoWithProvider ?db (freq_RepoID example_fetch_request) = Some (example_repo, example_provider)"
    by (simp add: GetRepoWithProvider_def example_defs)
  have c: "Decrypt (gcm ?env) (provider_token_encrypted example_provider) (encKey ?env) = Inr [116]"
    by (simp add: Decrypt_def aes_NewCipher_ok_def NonceSize_def example_defs)
  have d: "newProvider ?env (provider_type example_provider) (provider_base_url example_provider) [116]
             = Inr (example_client 10)"
    by (simp add: newProvider_def example_defs)
  have e: "GetMRDetails (example_client 10) (repo_remote_id example_repo)
             (freq_MRNumber example_fetch_request) = Inr example_details"
    by (simp add: example_defs)
  have split: "review_runs ?db = [example_run ''run1'' StatusCompleted (Some ''aaa111'')]
        @ example_run ''run2'' StatusCompleted (Some ''bbb222'') # [example_run ''run3'' StatusFailed None]"
    by simp
  have ex: "\<exists>pre r post. review_runs ?db = pre @ r # post
              \<and> run_repo_id r = freq_RepoID example_fetch_request
              \<and> run_mr_number r = freq_MRNumber example_fetch_request
              \<and> run_status r = StatusCompleted \<and> run_diff_hash r = Some (HeadSHA example_details)
              \<and> (\<forall>x \<in> set post. \<not> (run_repo_id x = freq_RepoID example_fetch_request
                     \<and> run_mr_number x = freq_MRNumber example_fetch_request
                     \<and> run_status x = StatusCompleted \<and> run_diff_hash x \<noteq> None))"
    apply (rule exI [of _ "[example_run ''run1'' StatusCompleted (Some ''aaa111'')]"])
    apply (rule exI [of _ "example_run ''run2'' StatusCompleted (Some ''bbb222'')"])
    apply (rule exI [of _ "[example_run ''run3'' StatusFailed None]"])
    apply (simp add: example_defs)
    done
  from dedup_skip [OF a(1) a(2) b c d e a(3)] ex
  show ?thesis by (simp add: example_defs)
qed

text \<open>
  The claim as stated fails twice. A completed run with the head's hash exists, but a
  later completed run has another hash: the fetcher does not skip and calls
  \<open>GetMRDiff\<close>. And when it does skip for a merge request that is a draft, the response
  says \<open>draft = false\<close>.
\<close>

theorem dedup_skip_existence_counterexample:
  "FetchPRDetails (example_env (example_client 10))
      (example_db\<lparr> review_runs :=
         [example_run ''run1'' StatusCompleted (Some ''bbb222''),
          example_run ''run2'' StatusCompleted (Some ''ccc333'')] \<rparr>)
      example_fetch_request
   = fetch_diff (example_client 10) example_repo example_fetch_request example_details
   \<and> snd (fetch_diff (example_client 10) example_repo example_fetch_request example_details)
      = [CallGetMRDetails ''7'' 4, CallGetMRDiff ''7'' 4]
   \<and> map_sum id fr_Skip
        (fst (fetch_diff (example_client 10) example_repo example_fetch_request example_details))
      = Inr False
   \<and> map_sum id fr_Draft
        (fst (FetchPRDetails
           (example_env ((example_client 10)\<lparr> GetMRDetails :=
               \<lambda>remote mr. Inr (example_details\<lparr> Draft := True \<rparr>) \<rparr>))
           (example_db\<lparr> review_runs := [example_run ''run1'' StatusCompleted (Some ''bbb222'')] \<rparr>)
           example_fetch_request))
      = Inr False"
  by (simp add: fetch_defs example_defs)

section \<open>The too-large shortcut\<close>


lemma Post_shape:
  "Post env db req = (PostResponse_zero, Some (PlainError (DatabaseError OpUpdateReviewRunSummary)), db, [])
   \<or> (preq_DryRun req \<and> Post env db req =
         (PostResponse_zero, None, UpdateReviewRunSummary db (preq_ReviewRunID req) (preq_Summary req), []))
   \<or> (\<exists>e c. Post env db req =
         (PostResponse_zero, Some (TerminalError e c),
          UpdateReviewRunSummary db (preq_ReviewRunID req) (preq_Summary req), []))
   \<or> (\<exists>client. \<not> preq_DryRun req \<and> Post env db req =
         post_to_provider env (UpdateReviewRunSummary db (preq_ReviewRunID req) (preq_Summary req)) req client)"
proof (cases "db_fails env OpUpdateReviewRunSummary")
  case True
  then show ?thesis by (simp add: Post_def)
next
  case f1: False
  let ?db1 = "UpdateReviewRunSummary db (preq_ReviewRunID req) (preq_Summary req)"
  show ?thesis
  proof (cases "preq_DryRun req")
    case True
    with f1 show ?thesis by (simp add: Post_def Let_def)
  next
    case f2: False
    show ?thesis
    proof (cases "db_fails env OpGetRepoWithProvider")
      case True
      with f1 f2 show ?thesis by (simp add: Post_def Let_def)
    next
      case f3: False
      show ?thesis
      proof (cases "GetRepoWithProvider ?db1 (preq_RepoID req)")
        case None
        with f1 f2 f3 show ?thesis by (simp add: Post_def Let_def)
      next
        case (Some rp)
        obtain repo prov where rp: "rp = (repo, prov)" by (cases rp)
        show ?thesis
        proof (cases "Decrypt (gcm env) (provider_token_encrypted prov) (encKey env)")
          case (Inl e)
          with f1 f2 f3 Some rp show ?thesis by (simp add: Post_def Let_def)
        next
          case (Inr token)
          show ?thesis
          proof (cases "newProvider env (provider_type prov) (provider_base_url prov) token")
            case (Inl e)
            with f1 f2 f3 Some rp Inr show ?thesis by (simp add: Post_def Let_def)
          next
            case i2: (Inr client)
            with f1 f2 f3 Some rp Inr show ?thesis by (simp add: Post_def Let_def) blast
          qed
        qed
      qed
    qed
  qed
qed









section \<open>The posted flag and the provider comment id\<close>

lemma review_comments_update_runs [simp]:
  "review_comments (update_runs db i f) = review_comments db"
  by (simp add: update_runs_def)

lemma review_comments_run_ops [simp]:
  "review_comments (UpdateReviewRunStatus db i st) = review_comments db"
  "review_comments (UpdateReviewRunSummary db i s) = review_comments db"
  "review_comments (UpdateReviewRunDiffHash db i h) = review_comments db"
  "review_comments (UpdateReviewRunInvocationID db i v) = review_comments db"
  "review_comments (CreateReviewRun db n r m) = review_comments db"
  "review_comments (CreateReviewRunWithInvocation db n r m v) = review_comments db"
  "review_comments (CreateDraftReviewRun db n r m) = review_comments db"
  "review_comments (TransitionDraftToReview db r m) = review_comments db"
  by (simp_all add: UpdateReviewRunStatus_def UpdateReviewRunSummary_def UpdateReviewRunDiffHash_def
      UpdateReviewRunInvocationID_def CreateReviewRun_def CreateReviewRunWithInvocation_def
      CreateDraftReviewRun_def TransitionDraftToReview_def split: option.splits)

lemma posted_iff_run_ops [simp]:
  "posted_iff_provider_id (UpdateReviewRunStatus db i st) = posted_iff_provider_id db"
  "posted_iff_provider_id (UpdateReviewRunSummary db i s) = posted_iff_provider_id db"
  "posted_iff_provider_id (UpdateReviewRunDiffHash db i h) = posted_iff_provider_id db"
  "posted_iff_provider_id (CreateReviewRun db n r m) = posted_iff_provider_id db"
  by (simp_all add: posted_iff_provider_id_def)

lemma inv_Mark: "posted_iff_provider_id db \<Longrightarrow> posted_iff_provider_id (MarkCommentPosted db i p)"
proof -
  assume "posted_iff_provider_id db"
  then have a: "list_all (\<lambda>c. comment_posted c = (comment_provider_comment_id c \<noteq> None)) (review_comments db)"
    by (simp add: posted_iff_provider_id_def)
  have "list_all (\<lambda>c. comment_posted c = (comment_provider_comment_id c \<noteq> None)) xs \<Longrightarrow>
        list_all (\<lambda>c. comment_posted c = (comment_provider_comment_id c \<noteq> None))
          (map (\<lambda>c. if comment_id c = i
                    then c\<lparr> comment_posted := True, comment_provider_comment_id := Some p \<rparr>
                    else c) xs)" for xs
    by (induction xs) simp_all
  from this [OF a] show ?thesis by (simp add: posted_iff_provider_id_def MarkCommentPosted_def)
qed

lemma Insert_appends:
  "\<exists>new. review_comments (InsertReviewComments db gen runID cs) = review_comments db @ new
         \<and> length new = length cs
         \<and> list_all (\<lambda>c. comment_posted c = False \<and> comment_provider_comment_id c = None
                          \<and> comment_review_run_id c = runID) new"
proof (induction cs arbitrary: db)
  case Nil
  then show ?case by simp
next
  case (Cons c cs)
  let ?row = "\<lparr> comment_id = gen (length (review_comments db)),
                 comment_review_run_id = runID,
                 comment_file_path = in_FilePath c,
                 comment_line_start = in_LineStart c,
                 comment_line_end = in_LineEnd c,
                 comment_body = in_Body c,
                 comment_provider_comment_id = None,
                 comment_posted = False \<rparr>"
  let ?db = "db\<lparr> review_comments := review_comments db @ [?row] \<rparr>"
  from Cons.IH [of ?db] obtain new where
    n: "review_comments (InsertReviewComments ?db gen runID cs) = review_comments ?db @ new"
       "length new = length cs"
       "list_all (\<lambda>c. comment_posted c = False \<and> comment_provider_comment_id c = None
                          \<and> comment_review_run_id c = runID) new"
    by blast
  show ?case
    by (rule exI [of _ "?row # new"]) (use n in simp)
qed

lemma fresh_rows_consistent:
  "list_all (\<lambda>c. comment_posted c = False \<and> comment_provider_comment_id c = None
                          \<and> comment_review_run_id c = runID) xs \<Longrightarrow>
   list_all (\<lambda>c. comment_posted c = (comment_provider_comment_id c \<noteq> None)) xs"
  by (induction xs) simp_all

lemma inv_Insert:
  assumes "posted_iff_provider_id db"
  shows "posted_iff_provider_id (InsertReviewComments db gen runID cs)"
proof -
  obtain new where n: "review_comments (InsertReviewComments db gen runID cs) = review_comments db @ new"
    and f: "list_all (\<lambda>c. comment_posted c = False \<and> comment_provider_comment_id c = None
                          \<and> comment_review_run_id c = runID) new"
    using Insert_appends by blast
  from fresh_rows_consistent [OF f] assms n show ?thesis
    by (simp add: posted_iff_provider_id_def)
qed

lemma inv_post_comments:
  "posted_iff_provider_id db \<Longrightarrow>
   posted_iff_provider_id (post_db (post_comments env client req cs db n calls))"
proof (induction cs arbitrary: db n calls)
  case Nil
  then show ?case by simp
next
  case (Cons c cs)
  let ?ic = "\<lparr> ic_FilePath = row_FilePath c, ic_Line = row_LineStart c,
                 ic_Body = row_Body c, ic_NewLine = True \<rparr>"
  have m: "posted_iff_provider_id (MarkCommentPosted db (row_ID c) p)" for p
    using Cons.prems by (rule inv_Mark)
  show ?case
  proof (cases "PostInlineComment client (preq_RepoRemoteID req) (preq_MRNumber req) ?ic")
    case (Inl err)
    show ?thesis
      apply (simp only: post_comments.simps Let_def Inl sum.case)
      using Cons.IH [OF m] Cons.prems apply simp
      done
  next
    case (Inr result_ID)
    show ?thesis
      apply (simp only: post_comments.simps Let_def Inr sum.case)
      using Cons.IH [OF m] Cons.prems apply simp
      done
  qed
qed

lemma inv_post_to_provider:
  assumes "posted_iff_provider_id db"
  shows "posted_iff_provider_id (post_db (post_to_provider env db req client))"
proof (cases "PostComment client (preq_RepoRemoteID req) (preq_MRNumber req) (preq_Summary req)")
  case (Inl err)
  then show ?thesis using assms by (simp add: post_to_provider_def)
next
  case (Inr a)
  then show ?thesis using assms inv_post_comments [OF assms]
    by (simp add: post_to_provider_def Let_def)
qed

lemma inv_Post:
  assumes "posted_iff_provider_id db"
  shows "posted_iff_provider_id (post_db (Post env db req))"
proof -
  let ?db1 = "UpdateReviewRunSummary db (preq_ReviewRunID req) (preq_Summary req)"
  have s: "posted_iff_provider_id ?db1"
    using assms by simp
  note p = inv_post_to_provider [OF s]
  from Post_shape [of env db req] show ?thesis
    using assms s p by (elim disjE exE conjE) simp_all
qed

lemma inv_run_fail:
  "posted_iff_provider_id db \<Longrightarrow> posted_iff_provider_id (step_db (run_fail env db i e c))"
  by (simp add: run_fail_def)

lemma inv_run_post_and_complete:
  assumes "posted_iff_provider_id db"
  shows "posted_iff_provider_id (step_db (run_post_and_complete env db req runID remote summary))"
proof -
  let ?preq = "\<lparr> preq_ReviewRunID = runID, preq_RepoID = rr_RepoID req,
                  preq_MRNumber = rr_MRNumber req, preq_RepoRemoteID = remote,
                  preq_Summary = summary, preq_DryRun = rr_DryRun req \<rparr>"
  obtain resp err d calls where p: "Post env db ?preq = (resp, err, d, calls)"
    by (cases "Post env db ?preq") auto
  from inv_Post [OF assms, where env = env and req = ?preq] p have i: "posted_iff_provider_id d" by simp
  show ?thesis
  proof (cases err)
    case None
    with p i show ?thesis by (simp add: run_post_and_complete_def run_fail_def)
  next
    case (Some he)
    with p i show ?thesis by (cases he) (simp_all add: run_post_and_complete_def run_fail_def)
  qed
qed

lemma inv_run_review:
  assumes "posted_iff_provider_id db"
  shows "posted_iff_provider_id (step_db (run_review env db req runID fr))"
proof -
  let ?input = "\<lparr> rin_Diff = fr_Diff fr, rin_MRTitle = fr_MRTitle fr,
               rin_MRDescription = fr_MRDescription fr, rin_MRAuthor = fr_MRAuthor fr,
               rin_SourceBranch = fr_SourceBranch fr,
               rin_TargetBranch = fr_TargetBranch fr,
               rin_ChangedFiles = fr_ChangedFiles fr \<rparr>"
  show ?thesis
  proof (cases "reviewer_RunReview env ?input")
    case (Inl he)
    with assms show ?thesis by (cases he) (simp_all add: run_review_def run_fail_def)
  next
    case (Inr reviewer)
    note ins = inv_Insert [OF assms]
    note pc = inv_run_post_and_complete [OF ins]
    from Inr assms show ?thesis
      by (simp add: run_review_def Let_def run_fail_def pc)
  qed
qed

lemma inv_run_after_fetch:
  assumes "posted_iff_provider_id db"
  shows "posted_iff_provider_id (step_db (run_after_fetch env db req runID fr))"
proof -
  have a: "posted_iff_provider_id d \<Longrightarrow>
           posted_iff_provider_id (step_db (run_post_and_complete env d req runID r s))" for d r s
    by (rule inv_run_post_and_complete)
  have b: "posted_iff_provider_id d \<Longrightarrow>
           posted_iff_provider_id (step_db (run_review env d req runID fr))" for d
    by (rule inv_run_review)
  show ?thesis
    using assms by (simp add: run_after_fetch_def Let_def run_fail_def a b)
qed

lemma inv_run_pipeline:
  assumes "posted_iff_provider_id db"
  shows "posted_iff_provider_id (step_db (run_pipeline env db req runID))"
proof -
  let ?freq = "\<lparr> freq_RepoID = rr_RepoID req, freq_MRNumber = rr_MRNumber req,
               freq_Force = rr_Force req \<rparr>"
  obtain res calls where f: "FetchPRDetails env db ?freq = (res, calls)"
    by (cases "FetchPRDetails env db ?freq") auto
  show ?thesis
  proof (cases res)
    case (Inl he)
    with f assms show ?thesis by (cases he) (simp_all add: run_pipeline_def run_fail_def)
  next
    case (Inr fr)
    obtain r d c where s: "run_after_fetch env db req runID fr = (r, d, c)"
      by (cases "run_after_fetch env db req runID fr") auto
    from inv_run_after_fetch [OF assms, where env = env and req = req and runID = runID and fr = fr] s
    have "posted_iff_provider_id d" by simp
    with f Inr s show ?thesis by (simp add: run_pipeline_def)
  qed
qed

lemma inv_Run:
  assumes "posted_iff_provider_id db"
  shows "posted_iff_provider_id (out_db (Run env st db req))"
proof (cases "run_select_row env db req")
  case (Inl err)
  with assms show ?thesis by (simp add: Run_def Let_def)
next
  case (Inr sel)
  obtain runID d where sel: "sel = (runID, d)" by (cases sel)
  from Inr sel assms have i: "posted_iff_provider_id d"
    by (auto simp: run_select_row_def split: if_splits)
  obtain r1 d1 c1 where s1: "run_pipeline env d req runID = (r1, d1, c1)"
    by (cases "run_pipeline env d req runID") auto
  from inv_run_pipeline [OF i, where env = env and req = req and runID = runID] s1
  have "posted_iff_provider_id d1" by simp
  with Inr sel s1 assms show ?thesis by (simp add: Run_def Let_def)
qed

lemma webhook_dispatch_comments:
  "review_comments (fst (snd (webhook_dispatch env d db repo mrIID))) = review_comments db"
  by (simp add: webhook_dispatch_def Let_def split: option.split)

lemma webhook_event_comments:
  "review_comments (fst (snd (webhook_event env dispatcher db providerID payload))) = review_comments db"
proof -
  have d: "review_comments (fst (snd (webhook_dispatch env x y repo mrIID))) = review_comments db"
    if "review_comments y = review_comments db" for x y repo mrIID
    using that by (simp add: webhook_dispatch_comments)
  show ?thesis
    by (simp add: webhook_event_def Let_def d split: option.split)
qed

lemma ServeHTTP_comments:
  "review_comments (fst (snd (ServeHTTP env dispatcher db r))) = review_comments db"
  by (simp add: ServeHTTP_def Let_def webhook_event_comments split: option.split)

lemma TriggerReview_comments:
  "review_comments (fst (snd (TriggerReview env d db msg))) = review_comments db"
  by (simp add: TriggerReview_def Let_def split: option.split)

text \<open>
  Claim C9. \<open>posted\<close> is true exactly on the rows that have a provider comment id, and
  every operation keeps it so. \<open>InsertReviewComments\<close> appends one row per input, each
  with \<open>posted = false\<close> and no provider comment id; \<open>MarkCommentPosted\<close> sets both
  \<open>posted = true\<close> and the id on the rows it updates; the handlers \<open>Post\<close> and \<open>Run\<close>
  write comments through these two only, and the webhook handler and \<open>TriggerReview\<close>
  do not write comments at all. Hence \<open>GetUnpostedComments\<close>, which filters on
  \<open>posted = false\<close>, returns exactly the run's rows without a provider comment id.
\<close>

theorem posted_iff_provider_comment_id:
  assumes "posted_iff_provider_id db"
  shows "posted_iff_provider_id (InsertReviewComments db gen runID cs)
       \<and> (\<exists>new. review_comments (InsertReviewComments db gen runID cs) = review_comments db @ new
              \<and> length new = length cs
              \<and> list_all (\<lambda>c. comment_posted c = False \<and> comment_provider_comment_id c = None
                               \<and> comment_review_run_id c = runID) new)
       \<and> posted_iff_provider_id (MarkCommentPosted db cid pcid)
       \<and> (\<forall>x \<in> set (review_comments (MarkCommentPosted db cid pcid)).
             comment_id x = cid \<longrightarrow> comment_provider_comment_id x = Some pcid \<and> comment_posted x)
       \<and> posted_iff_provider_id (post_db (Post env db preq))
       \<and> posted_iff_provider_id (out_db (Run env st db req))
       \<and> review_comments (fst (snd (ServeHTTP aenv dispatcher db r))) = review_comments db
       \<and> review_comments (fst (snd (TriggerReview aenv d db msg))) = review_comments db
       \<and> GetUnpostedComments db runID =
           map to_row (filter (\<lambda>c. comment_review_run_id c = runID
                                    \<and> comment_provider_comment_id c = None) (review_comments db))"
  using inv_Insert [OF assms] Insert_appends inv_Mark [OF assms] Mark_sets_row inv_Post [OF assms]
    inv_Run [OF assms] ServeHTTP_comments TriggerReview_comments GetUnposted_under_inv [OF assms]
  by (intro conjI) blast+

text \<open>
  Two inserted comments, then the first marked: the flag and the id agree after each
  step, and the unposted rows are the ones without an id.
\<close>

theorem posted_iff_provider_comment_id_witness:
  "posted_iff_provider_id example_db
   \<and> posted_iff_provider_id
        (InsertReviewComments example_db (\<lambda>n. if n = 0 then ''c1'' else ''c2'') ''run1''
           [\<lparr> in_FilePath = ''a.go'', in_LineStart = 3, in_LineEnd = 3, in_Body = ''x'' \<rparr>,
            \<lparr> in_FilePath = ''b.go'', in_LineStart = 5, in_LineEnd = 6, in_Body = ''y'' \<rparr>])
   \<and> posted_iff_provider_id
        (MarkCommentPosted
           (InsertReviewComments example_db (\<lambda>n. if n = 0 then ''c1'' else ''c2'') ''run1''
              [\<lparr> in_FilePath = ''a.go'', in_LineStart = 3, in_LineEnd = 3, in_Body = ''x'' \<rparr>,
               \<lparr> in_FilePath = ''b.go'', in_LineStart = 5, in_LineEnd = 6, in_Body = ''y'' \<rparr>])
           ''c1'' ''disc7'')
   \<and> map row_ID (GetUnpostedComments
        (MarkCommentPosted
           (InsertReviewComments example_db (\<lambda>n. if n = 0 then ''c1'' else ''c2'') ''run1''
              [\<lparr> in_FilePath = ''a.go'', in_LineStart = 3, in_LineEnd = 3, in_Body = ''x'' \<rparr>,
               \<lparr> in_FilePath = ''b.go'', in_LineStart = 5, in_LineEnd = 6, in_Body = ''y'' \<rparr>])
           ''c1'' ''disc7'') ''run1'') = [''c2'']"
proof -
  let ?gen = "\<lambda>n::nat. if n = 0 then ''c1'' else ''c2''"
  let ?ins = "InsertReviewComments example_db ?gen ''run1''
           [\<lparr> in_FilePath = ''a.go'', in_LineStart = 3, in_LineEnd = 3, in_Body = ''x'' \<rparr>,
            \<lparr> in_FilePath = ''b.go'', in_LineStart = 5, in_LineEnd = 6, in_Body = ''y'' \<rparr>]"
  have i0: "posted_iff_provider_id example_db"
    by (simp add: posted_iff_provider_id_def example_db_def)
  note t0 = posted_iff_provider_comment_id [OF i0]
  have i1: "posted_iff_provider_id ?ins"
    using t0 [THEN conjunct1] .
  note t1 = posted_iff_provider_comment_id [OF i1]
  have i2: "posted_iff_provider_id (MarkCommentPosted ?ins ''c1'' ''disc7'')"
    using t1 [THEN conjunct2, THEN conjunct2, THEN conjunct1] .
  have u: "map row_ID (GetUnpostedComments (MarkCommentPosted ?ins ''c1'' ''disc7'') ''run1'') = [''c2'']"
    by (simp add: GetUnpostedComments_def MarkCommentPosted_def to_row_def example_db_def)
  from i0 i1 i2 u show ?thesis by (intro conjI)
qed

section \<open>Webhook rejections\<close>






section \<open>Pending and running rows of a pair\<close>











end
